theory Spec2Isabelle
  imports Complex_Main "HOL-Library.AList"
begin

section \<open>Data model\<close>

text \<open>
  The embedding follows \<^verbatim>\<open>src/opi.py\<close> (Python 2). Python floats are idealised as
  \<^typ>\<open>real\<close>, Python ints as \<^typ>\<open>int\<close> (counters that start at 0 and are only
  incremented as \<^typ>\<open>nat\<close>). Logging through \<^verbatim>\<open>msg\<close> has no effect on the
  fields modelled here and is left out. A Python exception that is not caught inside the
  modelled method is a value of \<open>pyerr\<close>.
\<close>

datatype pyerr =
  ZeroDivisionError | IndexError | KeyError | IOError | AttributeError | ValueError | OSError |
  LibraryError

text \<open>
  A PIL image as far as the program reads it: \<^verbatim>\<open>mode\<close>, \<^verbatim>\<open>size\<close>, the
  \<^verbatim>\<open>dpi\<close> entry of \<^verbatim>\<open>info\<close>, and the pixel data (row-major, one list of band
  values per pixel).
\<close>

record pil_image =
  mode :: string
  size_px :: "int \<times> int"
  info_dpi :: "(real \<times> real) option"
  pixels :: "nat list list"

text \<open>
  \<^verbatim>\<open>class EPSImage\<close>: \<^verbatim>\<open>data\<close>, \<^verbatim>\<open>info["boundingbox"]\<close> and \<^verbatim>\<open>size\<close>; the
  attribute \<^verbatim>\<open>size\<close> is only assigned on some paths of the constructor, hence the
  option. Its \<^verbatim>\<open>mode\<close> is always \<^verbatim>\<open>None\<close>.
\<close>

record EPSImage =
  data :: string
  info_boundingbox :: "real list option"
  eps_size :: "(real \<times> real) option"

datatype image_payload = Raster pil_image | Epsf EPSImage

text \<open>One value of the dictionary \<^verbatim>\<open>_imagecache\<close>.\<close>

record entry =
  entry_image :: image_payload
  entry_bytes :: int
  entry_occurrences :: nat
  entry_path :: string

text \<open>
  Keys of \<^verbatim>\<open>_imagecache\<close> are values of \<^verbatim>\<open>_imgpath_md5\<close>: a hex digest, or
  \<^verbatim>\<open>None\<close> right after \<^verbatim>\<open>_reset\<close>.
\<close>

type_synonym key = "string option"

text \<open>The options set in \<^verbatim>\<open>OPIparser.__init__\<close> and by the command line.\<close>

record options =
  abortonerror :: bool
  abortonfilenotfound :: bool
  convertcmykimages :: bool
  detectcmykgrayimages :: bool
  cmykgrayimages_stripcmy :: bool
  convertgrayimages :: bool
  out_fileName :: string
  out_gray_fileName :: string
  usecache :: bool
  cachemegs :: real
  usediskcache :: bool
  newline :: string
  version :: "real list"
  imagecropthreshold :: real
  DownsampleMonoImages :: bool
  MonoImageMinResolution :: real
  MonoImageResolution :: real
  MonoImageUseEmbeddedResolution :: bool
  MonoImageDownsampleThreshold :: real
  DownsampleGrayImages :: bool
  GrayImageMinResolution :: real
  GrayImageResolution :: real
  GrayImageUseEmbeddedResolution :: bool
  GrayImageDownsampleThreshold :: real
  DownsampleColorImages :: bool
  ColorImageMinResolution :: real
  ColorImageResolution :: real
  ColorImageUseEmbeddedResolution :: bool
  ColorImageDownsampleThreshold :: real
  SmallHalftoneImageSize :: real
  SmallHalftoneImageResolutionFactor :: real
  TinyHalftoneImageSize :: real
  TinyHalftoneImageResolutionFactor :: real

text \<open>
  The mutable attributes of \<^verbatim>\<open>OPIparser\<close> that the modelled methods read or write
  (the leading underscore of the Python names is dropped; \<^verbatim>\<open>self._version\<close>, the
  OPI versions seen for the current object, is \<open>obj_version\<close>, to keep it apart from the
  option \<^verbatim>\<open>self.version\<close>). A list that holds either nothing or a fixed number of
  numbers is an option of a tuple. \<open>fo\<close> is what has been written to the output file.
\<close>

record opi =
  imagecache :: "(key \<times> entry) list"
  cachebytes :: int
  max_occurrences :: "nat list"
  aborted :: bool
  errorcount :: nat
  fo :: "string list"
  imgpath_md5 :: key
  imgASCIIpath :: string
  imagecached :: bool
  sizemod :: bool
  colormod :: bool
  iscmykgrayimage :: bool
  errorstr :: string
  imageextension :: string
  imageformat :: string
  ImageFileName :: string
  obj_version :: "real list"
  ImageDimensions :: "(real \<times> real) option"
  ImageCropRect :: "(int \<times> int \<times> int \<times> int) option"
  ImageCropFixed :: "(real \<times> real \<times> real \<times> real) option"
  RealCropRect :: "(int \<times> int \<times> int \<times> int) option"
  RealDimensions :: "(real \<times> real) option"
  RealRes :: "(real \<times> real) option"
  DownsampleDimensions :: "(real \<times> real) option"
  DownsampleFactor :: "real \<times> real"
  DownsampleRes :: "(real \<times> real) option"
  ImageResolution :: "(real \<times> real) option"
  IncludedImageDimensions :: "(int \<times> int) option"
  IncludedImageQuality :: real

section \<open>The memory cache\<close>

text \<open>
  \<^verbatim>\<open>_imagecache\<close> is a Python 2 dictionary. It is modelled as an association list
  whose order is the order in which \<^verbatim>\<open>for img in self._imagecache\<close> visits the keys;
  a new key goes to the end. The iteration order of a real dictionary depends on the
  hashes, so the results below are stated for every order of the list.
\<close>

text \<open>The budget \<^verbatim>\<open>self.cachemegs * 1024 * 1024\<close>.\<close>

definition cachelimit :: "options \<Rightarrow> real" where
  "cachelimit cfg = cachemegs cfg * 1024 * 1024"

text \<open>\<^verbatim>\<open>self._cachebytes + bytes > self.cachemegs * 1024 * 1024\<close>\<close>

definition exceeds :: "options \<Rightarrow> int \<Rightarrow> int \<Rightarrow> bool" where
  "exceeds cfg cb bytes = (real_of_int (cb + bytes) > cachelimit cfg)"

text \<open>\<^verbatim>\<open>_delimage(key = None)\<close>\<close>

definition delimage :: "key \<Rightarrow> opi \<Rightarrow> opi" where
  "delimage key0 s =
     (let k = (if key0 = None then imgpath_md5 s else key0)
      in case map_of (imagecache s) k of
           Some e \<Rightarrow> s\<lparr>cachebytes := cachebytes s - entry_bytes e,
                        imagecache := AList.delete k (imagecache s)\<rparr>
         | None \<Rightarrow> s)"

text \<open>
  The first loop of \<^verbatim>\<open>_purgecache\<close>: it walks the cache, stops as soon as the
  request fits, and otherwise moves every entry that qualifies to \<^verbatim>\<open>trash\<close>,
  lowering \<^verbatim>\<open>_cachebytes\<close> at once. Arguments: the threshold \<open>occ\<close>, the part of the
  cache still to visit, the running \<^verbatim>\<open>_cachebytes\<close>, the trash so far.
\<close>

fun purge_scan ::
  "options \<Rightarrow> int \<Rightarrow> nat \<Rightarrow> (key \<times> entry) list \<Rightarrow> int \<Rightarrow> key list \<Rightarrow> int \<times> key list" where
  "purge_scan cfg bytes occ [] cb trash = (cb, trash)"
| "purge_scan cfg bytes occ ((img, e) # rest) cb trash =
     (if \<not> exceeds cfg cb bytes then (cb, trash)
      else if occ = 1 \<or> entry_occurrences e < occ
        then purge_scan cfg bytes occ rest (cb - entry_bytes e) (trash @ [img])
        else purge_scan cfg bytes occ rest cb trash)"

text \<open>
  The second loop of \<^verbatim>\<open>_purgecache\<close>: delete the trashed keys, pop
  \<^verbatim>\<open>_max_occurrences\<close> once per deleted key, and reload the local \<^verbatim>\<open>occurrences\<close>
  from its new last element.
\<close>

fun purge_trash ::
  "key list \<Rightarrow> (key \<times> entry) list \<Rightarrow> nat list \<Rightarrow> nat \<Rightarrow> (key \<times> entry) list \<times> nat list \<times> nat" where
  "purge_trash [] c mo occ = (c, mo, occ)"
| "purge_trash (img # trash) c mo occ =
     (let c' = AList.delete img c;
          mo' = (if mo \<noteq> [] then butlast mo else mo);
          occ' = (if mo' \<noteq> [] then last mo' else occ)
      in purge_trash trash c' mo' occ')"

text \<open>The threshold chosen at the head of \<^verbatim>\<open>_purgecache\<close>.\<close>

definition purge_threshold :: "nat \<Rightarrow> opi \<Rightarrow> nat" where
  "purge_threshold occurrences s =
     (if occurrences = 0 \<and> max_occurrences s \<noteq> [] then last (max_occurrences s) else 1)"

text \<open>
  One activation of \<^verbatim>\<open>_purgecache\<close> up to its recursive call: the state after both
  loops and the value of the local \<^verbatim>\<open>occurrences\<close>.
\<close>

definition purge_round :: "options \<Rightarrow> int \<Rightarrow> nat \<Rightarrow> opi \<Rightarrow> opi \<times> nat" where
  "purge_round cfg bytes occurrences s =
     (let occ = purge_threshold occurrences s;
          (cb, trash) = purge_scan cfg bytes occ (imagecache s) (cachebytes s) [];
          (c, mo, occ') = purge_trash trash (imagecache s) (max_occurrences s) occ
      in (s\<lparr>cachebytes := cb, imagecache := c, max_occurrences := mo\<rparr>, occ'))"

lemma purge_scan_all:
  "purge_scan cfg bytes 1 c cb trash = (cb', trash') \<Longrightarrow>
     \<not> exceeds cfg cb' bytes \<or> set trash' = set trash \<union> fst ` set c"
proof (induction c arbitrary: cb trash)
  case Nil
  then show ?case by simp
next
  case (Cons p c)
  obtain img e where p: "p = (img, e)" by (cases p)
  from Cons.prems Cons.IH [of "cb - entry_bytes e" "trash @ [img]"] Cons.IH [of cb trash]
  show ?case unfolding p by (auto split: if_splits)
qed

lemma purge_trash_cache:
  "fst (purge_trash trash c mo occ) = filter (\<lambda>p. fst p \<notin> set trash) c"
  by (induction trash arbitrary: c mo occ)
    (auto simp: Let_def AList.delete_eq case_prod_beta intro: filter_cong)

lemma purge_round_all:
  assumes "occurrences \<noteq> 0" and "purge_round cfg bytes occurrences s = (s', occ')"
  shows "\<not> exceeds cfg (cachebytes s') bytes \<or> imagecache s' = []"
proof -
  obtain cb trash where sc:
    "purge_scan cfg bytes 1 (imagecache s) (cachebytes s) [] = (cb, trash)"
    by (cases "purge_scan cfg bytes 1 (imagecache s) (cachebytes s) []")
  obtain c mo o' where tr:
    "purge_trash trash (imagecache s) (max_occurrences s) 1 = (c, mo, o')"
    by (cases "purge_trash trash (imagecache s) (max_occurrences s) 1") auto
  from assms sc tr have s': "cachebytes s' = cb" "imagecache s' = c"
    by (auto simp: purge_round_def purge_threshold_def)
  from purge_scan_all [OF sc] have "\<not> exceeds cfg cb bytes \<or> set trash = fst ` set (imagecache s)"
    by simp
  moreover have "c = filter (\<lambda>p. fst p \<notin> set trash) (imagecache s)"
    using purge_trash_cache [of trash "imagecache s" "max_occurrences s" 1] tr by simp
  ultimately show ?thesis
    using s' by (auto simp: filter_empty_conv)
qed

text \<open>
  \<^verbatim>\<open>_purgecache(bytes, occurrences)\<close>. The recursive call passes
  \<^verbatim>\<open>occurrences + 1\<close>, which is never 0, so the callee takes the \<^verbatim>\<open>else\<close> branch
  of the head and works with the threshold 1.
\<close>

function purgecache :: "options \<Rightarrow> int \<Rightarrow> nat \<Rightarrow> opi \<Rightarrow> opi" where
  "purgecache cfg bytes occurrences s =
     (case purge_round cfg bytes occurrences s of
        (s', occ') \<Rightarrow>
          if exceeds cfg (cachebytes s') bytes \<and> imagecache s' \<noteq> []
          then purgecache cfg bytes (occ' + 1) s'
          else s')"
  by pat_completeness auto
termination
  apply (relation "measure (\<lambda>(cfg, bytes, occurrences, s). if occurrences = 0 then 1 else 0)")
   apply simp
  subgoal for cfg bytes occurrences s s' occ'
    using purge_round_all [of occurrences cfg bytes s s' occ'] by (cases "occurrences = 0") auto
  done

text \<open>\<^verbatim>\<open>_checkpurgecache(bytes)\<close>\<close>

definition checkpurgecache :: "options \<Rightarrow> int \<Rightarrow> opi \<Rightarrow> opi" where
  "checkpurgecache cfg bytes s =
     (if usecache cfg \<and> imageformat s \<noteq> ''[internal]'' then
        (if exceeds cfg (cachebytes s) bytes then purgecache cfg bytes 0 s else s)
      else
        (let s1 = delimage None s
         in if max_occurrences s1 \<noteq> []
            then s1\<lparr>max_occurrences := butlast (max_occurrences s1)\<rparr> else s1))"

text \<open>
  The memory footprint computed at the head of \<^verbatim>\<open>_setimage\<close> (\<^verbatim>\<open>/\<close> is the
  floor division of Python 2 ints; the mode of a PIL image is a non-empty string, the
  mode of an \<^verbatim>\<open>EPSImage\<close> is \<^verbatim>\<open>None\<close>).
\<close>

fun image_bytes :: "image_payload \<Rightarrow> int" where
  "image_bytes (Raster im) =
     (let bpp = (if mode im = ''1'' then 1 else 8)
      in (fst (size_px im) * snd (size_px im) * int (length (mode im)) * bpp) div 8)"
| "image_bytes (Epsf eps) = int (length (data eps))"

text \<open>\<^verbatim>\<open>_setimage(image)\<close>\<close>

definition setimage :: "options \<Rightarrow> image_payload \<Rightarrow> opi \<Rightarrow> opi" where
  "setimage cfg img s =
     (let bytes = image_bytes img;
          s1 = checkpurgecache cfg bytes s;
          s2 = (case map_of (imagecache s1) (imgpath_md5 s1) of
                  Some e \<Rightarrow>
                    s1\<lparr>cachebytes := cachebytes s1 - entry_bytes e,
                       imagecache := AList.update (imgpath_md5 s1)
                         (e\<lparr>entry_image := img, entry_bytes := bytes\<rparr>) (imagecache s1)\<rparr>
                | None \<Rightarrow>
                    s1\<lparr>imagecache := AList.update (imgpath_md5 s1)
                         \<lparr>entry_image = img, entry_bytes = bytes, entry_occurrences = 0,
                          entry_path = imgASCIIpath s1\<rparr> (imagecache s1)\<rparr>)
      in s2\<lparr>cachebytes := cachebytes s2 + bytes\<rparr>)"

text \<open>\<^verbatim>\<open>_getimage()\<close>: a missing key raises \<^verbatim>\<open>KeyError\<close>.\<close>

definition getimage :: "opi \<Rightarrow> pyerr + image_payload" where
  "getimage s =
     (case map_of (imagecache s) (imgpath_md5 s) of
        None \<Rightarrow> Inl KeyError
      | Some e \<Rightarrow> Inr (entry_image e))"

text \<open>\<^verbatim>\<open>_inc_occurrences()\<close>\<close>

definition inc_occurrences :: "opi \<Rightarrow> pyerr + opi" where
  "inc_occurrences s =
     (case map_of (imagecache s) (imgpath_md5 s) of
        None \<Rightarrow> Inl KeyError
      | Some e \<Rightarrow>
          (let n = entry_occurrences e + 1;
               c = AList.update (imgpath_md5 s) (e\<lparr>entry_occurrences := n\<rparr>) (imagecache s)
           in Inr (s\<lparr>imagecache := c,
                     max_occurrences :=
                       (if max_occurrences s = [] \<or> last (max_occurrences s) < n
                        then max_occurrences s @ [n] else max_occurrences s)\<rparr>)))"

text \<open>The option values of \<^verbatim>\<open>OPIparser.__init__\<close> (no ICC profile configured).\<close>

definition default_options :: options where
  "default_options =
     \<lparr>abortonerror = True, abortonfilenotfound = True, convertcmykimages = False,
      detectcmykgrayimages = True, cmykgrayimages_stripcmy = False, convertgrayimages = False,
      out_fileName = [], out_gray_fileName = [], usecache = True, cachemegs = 256,
      usediskcache = False, newline = [CHR 0x0A], version = [13 / 10, 2],
      imagecropthreshold = 11 / 10,
      DownsampleMonoImages = True, MonoImageMinResolution = 800, MonoImageResolution = 1200,
      MonoImageUseEmbeddedResolution = True, MonoImageDownsampleThreshold = 2,
      DownsampleGrayImages = True, GrayImageMinResolution = 200, GrayImageResolution = 300,
      GrayImageUseEmbeddedResolution = True, GrayImageDownsampleThreshold = 2,
      DownsampleColorImages = True, ColorImageMinResolution = 200, ColorImageResolution = 300,
      ColorImageUseEmbeddedResolution = True, ColorImageDownsampleThreshold = 2,
      SmallHalftoneImageSize = 160, SmallHalftoneImageResolutionFactor = 1,
      TinyHalftoneImageSize = 80, TinyHalftoneImageResolutionFactor = 1\<rparr>"

text \<open>\<^verbatim>\<open>_reset()\<close>, on the attributes of the model.\<close>

definition reset :: "opi \<Rightarrow> opi" where
  "reset s =
     s\<lparr>imgpath_md5 := None, imagecached := False, sizemod := False, colormod := False,
       iscmykgrayimage := False, errorstr := [], imageextension := [],
       imageformat := ''[unknown]'', ImageFileName := [], obj_version := [],
       ImageDimensions := None, ImageCropRect := None, ImageCropFixed := None,
       RealCropRect := None, RealDimensions := None, RealRes := None,
       DownsampleDimensions := None, DownsampleFactor := (1, 1), DownsampleRes := None,
       ImageResolution := None, IncludedImageDimensions := None, IncludedImageQuality := 1\<rparr>"

text \<open>The parser after \<^verbatim>\<open>__init__\<close> and the first \<^verbatim>\<open>_reset()\<close> of \<^verbatim>\<open>main\<close>.\<close>

definition initial_opi :: opi where
  "initial_opi =
     \<lparr>imagecache = [], cachebytes = 0, max_occurrences = [], aborted = False, errorcount = 0,
      fo = [], imgpath_md5 = None, imgASCIIpath = [], imagecached = False, sizemod = False,
      colormod = False, iscmykgrayimage = False, errorstr = [], imageextension = [],
      imageformat = ''[unknown]'', ImageFileName = [], obj_version = [],
      ImageDimensions = None, ImageCropRect = None, ImageCropFixed = None,
      RealCropRect = None, RealDimensions = None, RealRes = None,
      DownsampleDimensions = None, DownsampleFactor = (1, 1), DownsampleRes = None,
      ImageResolution = None, IncludedImageDimensions = None, IncludedImageQuality = 1\<rparr>"

text \<open>A blank grayscale image of the given size, for concrete runs.\<close>

definition gray_image :: "nat \<Rightarrow> nat \<Rightarrow> pil_image" where
  "gray_image w h =
     \<lparr>mode = ''L'', size_px = (int w, int h), info_dpi = None, pixels = replicate (w * h) [0]\<rparr>"

definition gray_entry :: "nat \<Rightarrow> nat \<Rightarrow> nat \<Rightarrow> string \<Rightarrow> entry" where
  "gray_entry w h n p =
     \<lparr>entry_image = Raster (gray_image w h), entry_bytes = int (w * h),
      entry_occurrences = n, entry_path = p\<rparr>"


definition cache_total :: "(key \<times> entry) list \<Rightarrow> int" where
  "cache_total c = sum_list (map (\<lambda>p. entry_bytes (snd p)) c)"

definition cache_inv :: "opi \<Rightarrow> bool" where
  "cache_inv s = (distinct (map fst (imagecache s)) \<and> cachebytes s = cache_total (imagecache s))"

definition fits :: "options \<Rightarrow> opi \<Rightarrow> bool" where
  "fits cfg s = (real_of_int (cachebytes s) \<le> cachelimit cfg)"

lemma cache_total_filter:
  "cache_total (filter P c) + cache_total (filter (\<lambda>p. \<not> P p) c) = cache_total c"
  by (induction c) (auto simp: cache_total_def)

lemma purge_scan_bytes:
  assumes "distinct (map fst c)" and "purge_scan cfg bytes occ c cb trash = (cb', trash')"
  shows "\<exists>ev. trash' = trash @ ev \<and> set ev \<subseteq> fst ` set c \<and>
              cb' = cb - cache_total (filter (\<lambda>p. fst p \<in> set ev) c)"
  using assms
proof (induction c arbitrary: cb trash)
  case Nil
  then show ?case by (simp add: cache_total_def)
next
  case (Cons p c)
  obtain img e where p: "p = (img, e)" by (cases p)
  from Cons.prems have dc: "distinct (map fst c)" and nin: "img \<notin> fst ` set c"
    by (auto simp: p)
  have keep: "filter (\<lambda>q. fst q \<in> set ev) ((img, e) # c) = filter (\<lambda>q. fst q \<in> set ev) c"
    if "set ev \<subseteq> fst ` set c" for ev
    using that nin by auto
  have drop: "filter (\<lambda>q. fst q \<in> set (img # ev)) ((img, e) # c)
      = (img, e) # filter (\<lambda>q. fst q \<in> set ev) c" for ev
    using nin by (auto intro!: filter_cong)
  consider (stop) "\<not> exceeds cfg cb bytes"
    | (evict) "exceeds cfg cb bytes" "occ = 1 \<or> entry_occurrences e < occ"
    | (skip) "exceeds cfg cb bytes" "\<not> (occ = 1 \<or> entry_occurrences e < occ)"
    by blast
  then show ?case
  proof cases
    case stop
    with Cons.prems show ?thesis by (auto simp: p cache_total_def intro!: exI [of _ "[]"])
  next
    case evict
    with Cons.prems have "purge_scan cfg bytes occ c (cb - entry_bytes e) (trash @ [img]) = (cb', trash')"
      by (auto simp: p)
    from Cons.IH [OF dc this] obtain ev where
      ev: "trash' = (trash @ [img]) @ ev" "set ev \<subseteq> fst ` set c"
        "cb' = cb - entry_bytes e - cache_total (filter (\<lambda>p. fst p \<in> set ev) c)"
      by blast
    show ?thesis
      apply (rule exI [of _ "img # ev"])
      using ev unfolding p drop by (auto simp: cache_total_def)
  next
    case skip
    with Cons.prems have "purge_scan cfg bytes occ c cb trash = (cb', trash')"
      by (auto simp: p)
    from Cons.IH [OF dc this] obtain ev where
      ev: "trash' = trash @ ev" "set ev \<subseteq> fst ` set c"
        "cb' = cb - cache_total (filter (\<lambda>p. fst p \<in> set ev) c)"
      by blast
    show ?thesis
      apply (rule exI [of _ ev])
      using ev unfolding p keep [OF ev(2)] by auto
  qed
qed

lemma purge_round_inv:
  assumes "cache_inv s"
  shows "cache_inv (fst (purge_round cfg bytes occurrences s))"
proof -
  let ?occ = "purge_threshold occurrences s"
  obtain cb trash where sc:
    "purge_scan cfg bytes ?occ (imagecache s) (cachebytes s) [] = (cb, trash)"
    by (cases "purge_scan cfg bytes ?occ (imagecache s) (cachebytes s) []")
  obtain c mo o' where tr:
    "purge_trash trash (imagecache s) (max_occurrences s) ?occ = (c, mo, o')"
    by (cases "purge_trash trash (imagecache s) (max_occurrences s) ?occ") auto
  have c: "c = filter (\<lambda>p. fst p \<notin> set trash) (imagecache s)"
    using purge_trash_cache [of trash "imagecache s" "max_occurrences s" ?occ] tr by simp
  from assms have d: "distinct (map fst (imagecache s))" and
    t: "cachebytes s = cache_total (imagecache s)"
    by (auto simp: cache_inv_def)
  from purge_scan_bytes [OF d sc]
  have "cb = cachebytes s - cache_total (filter (\<lambda>p. fst p \<in> set trash) (imagecache s))"
    by auto
  with t cache_total_filter [of "\<lambda>p. fst p \<in> set trash" "imagecache s"]
  have "cb = cache_total c" unfolding c by simp
  moreover have "distinct (map fst c)" unfolding c using d by (rule distinct_map_filter)
  ultimately show ?thesis
    using sc tr by (simp add: purge_round_def cache_inv_def)
qed

lemma purgecache_inv: "cache_inv s \<Longrightarrow> cache_inv (purgecache cfg bytes occurrences s)"
proof (induction cfg bytes occurrences s rule: purgecache.induct)
  case (1 cfg bytes occurrences s)
  obtain s' occ' where r: "purge_round cfg bytes occurrences s = (s', occ')"
    by (cases "purge_round cfg bytes occurrences s")
  from purge_round_inv [OF "1.prems", of cfg bytes occurrences] r have i: "cache_inv s'" by simp
  show ?case
  proof (cases "exceeds cfg (cachebytes s') bytes \<and> imagecache s' \<noteq> []")
    case True
    from "1.IH" [OF r [symmetric] True i] True r show ?thesis
      by (simp del: purgecache.simps add: purgecache.simps [of cfg bytes occurrences s])
  next
    case False
    with i r show ?thesis
      by (auto simp del: purgecache.simps simp add: purgecache.simps [of cfg bytes occurrences s])
  qed
qed

lemma purgecache_post:
  "\<not> exceeds cfg (cachebytes (purgecache cfg bytes occurrences s)) bytes
     \<or> imagecache (purgecache cfg bytes occurrences s) = []"
proof (induction cfg bytes occurrences s rule: purgecache.induct)
  case (1 cfg bytes occurrences s)
  obtain s' occ' where r: "purge_round cfg bytes occurrences s = (s', occ')"
    by (cases "purge_round cfg bytes occurrences s")
  show ?case
  proof (cases "exceeds cfg (cachebytes s') bytes \<and> imagecache s' \<noteq> []")
    case True
    from "1.IH" [OF r [symmetric] True] True r show ?thesis
      by (simp del: purgecache.simps add: purgecache.simps [of cfg bytes occurrences s])
  next
    case False
    with r show ?thesis
      by (auto simp del: purgecache.simps simp add: purgecache.simps [of cfg bytes occurrences s])
  qed
qed

lemma delete_absent: "k \<notin> fst ` set c \<Longrightarrow> AList.delete k c = c"
  by (induction c) (auto simp: AList.delete_eq)

lemma cache_total_delete:
  "distinct (map fst c) \<Longrightarrow> map_of c k = Some e \<Longrightarrow>
     cache_total (AList.delete k c) = cache_total c - entry_bytes e"
proof (induction c)
  case Nil
  then show ?case by simp
next
  case (Cons p c)
  show ?case
  proof (cases "fst p = k")
    case True
    with Cons.prems have "k \<notin> fst ` set c" "snd p = e" by auto
    with True delete_absent [of k c] show ?thesis
      by (cases p) (simp add: cache_total_def)
  next
    case False
    with Cons show ?thesis by (cases p) (auto simp: cache_total_def)
  qed
qed

lemma cache_total_update_some:
  "map_of c k = Some e \<Longrightarrow>
     cache_total (AList.update k e' c) = cache_total c - entry_bytes e + entry_bytes e'"
  by (induction c) (auto simp: cache_total_def)

lemma cache_total_update_none:
  "map_of c k = None \<Longrightarrow> cache_total (AList.update k e' c) = cache_total c + entry_bytes e'"
  by (induction c) (auto simp: cache_total_def)

lemma delimage_inv: "cache_inv s \<Longrightarrow> cache_inv (delimage k s)"
  by (auto simp: cache_inv_def delimage_def Let_def cache_total_delete AList.distinct_delete
      split: option.splits)

lemma checkpurgecache_inv: "cache_inv s \<Longrightarrow> cache_inv (checkpurgecache cfg bytes s)"
proof -
  assume i: "cache_inv s"
  have "cache_inv (delimage None s)" using i by (rule delimage_inv)
  then have "cache_inv (delimage None s\<lparr>max_occurrences := m\<rparr>)" for m
    by (simp add: cache_inv_def)
  with i purgecache_inv [OF i, of cfg bytes 0] \<open>cache_inv (delimage None s)\<close>
  show ?thesis by (simp add: checkpurgecache_def Let_def del: purgecache.simps)
qed

lemma setimage_inv: "cache_inv s \<Longrightarrow> cache_inv (setimage cfg img s)"
  using checkpurgecache_inv [of s cfg "image_bytes img"]
  by (auto simp: setimage_def Let_def cache_inv_def cache_total_update_some cache_total_update_none
      AList.distinct_update split: option.splits)

lemma inc_occurrences_inv: "cache_inv s \<Longrightarrow> inc_occurrences s = Inr s' \<Longrightarrow> cache_inv s'"
  by (auto simp: inc_occurrences_def Let_def cache_inv_def cache_total_update_some
      AList.distinct_update split: option.splits)


lemma purgecache_imgpath_md5 [simp]:
  "imgpath_md5 (purgecache cfg bytes occurrences s) = imgpath_md5 s"
proof (induction cfg bytes occurrences s rule: purgecache.induct)
  case (1 cfg bytes occurrences s)
  obtain s' occ' where r: "purge_round cfg bytes occurrences s = (s', occ')"
    by (cases "purge_round cfg bytes occurrences s")
  then have k: "imgpath_md5 s' = imgpath_md5 s"
    by (auto simp: purge_round_def Let_def split: prod.splits)
  show ?case
  proof (cases "exceeds cfg (cachebytes s') bytes \<and> imagecache s' \<noteq> []")
    case True
    from "1.IH" [OF r [symmetric] True] True r k show ?thesis
      by (auto simp del: purgecache.simps simp add: purgecache.simps [of cfg bytes occurrences s])
  next
    case False
    with r k show ?thesis
      by (auto simp del: purgecache.simps simp add: purgecache.simps [of cfg bytes occurrences s])
  qed
qed

lemma purge_round_subset:
  "set (imagecache (fst (purge_round cfg bytes occurrences s))) \<subseteq> set (imagecache s)"
proof -
  let ?occ = "purge_threshold occurrences s"
  obtain cb trash where sc:
    "purge_scan cfg bytes ?occ (imagecache s) (cachebytes s) [] = (cb, trash)"
    by (cases "purge_scan cfg bytes ?occ (imagecache s) (cachebytes s) []")
  obtain c mo o' where tr:
    "purge_trash trash (imagecache s) (max_occurrences s) ?occ = (c, mo, o')"
    by (cases "purge_trash trash (imagecache s) (max_occurrences s) ?occ") auto
  have "c = filter (\<lambda>p. fst p \<notin> set trash) (imagecache s)"
    using purge_trash_cache [of trash "imagecache s" "max_occurrences s" ?occ] tr by simp
  then show ?thesis using sc tr by (auto simp: purge_round_def)
qed

lemma purgecache_subset:
  "set (imagecache (purgecache cfg bytes occurrences s)) \<subseteq> set (imagecache s)"
proof (induction cfg bytes occurrences s rule: purgecache.induct)
  case (1 cfg bytes occurrences s)
  obtain s' occ' where r: "purge_round cfg bytes occurrences s = (s', occ')"
    by (cases "purge_round cfg bytes occurrences s")
  with purge_round_subset [of cfg bytes occurrences s]
  have k: "set (imagecache s') \<subseteq> set (imagecache s)" by simp
  show ?case
  proof (cases "exceeds cfg (cachebytes s') bytes \<and> imagecache s' \<noteq> []")
    case True
    from "1.IH" [OF r [symmetric] True] True r k show ?thesis
      by (auto simp del: purgecache.simps simp add: purgecache.simps [of cfg bytes occurrences s])
  next
    case False
    with r k show ?thesis
      by (auto simp del: purgecache.simps simp add: purgecache.simps [of cfg bytes occurrences s])
  qed
qed

lemma setimage_bound:
  assumes u: "usecache cfg" "imageformat s \<noteq> ''[internal]''"
    and nn: "\<forall>p\<in>set (imagecache s). 0 \<le> entry_bytes (snd p)"
  shows "fits cfg (setimage cfg img s) \<or>
         map fst (imagecache (setimage cfg img s)) = [imgpath_md5 s]"
proof -
  let ?b = "image_bytes img"
  let ?s1 = "checkpurgecache cfg ?b s"
  have k: "imgpath_md5 ?s1 = imgpath_md5 s"
    using u by (simp add: checkpurgecache_def del: purgecache.simps)
  have sub: "set (imagecache ?s1) \<subseteq> set (imagecache s)"
    using u purgecache_subset [of cfg ?b 0 s] by (simp add: checkpurgecache_def del: purgecache.simps)
  have post: "\<not> exceeds cfg (cachebytes ?s1) ?b \<or> imagecache ?s1 = []"
    using u purgecache_post [of cfg ?b 0 s] by (simp add: checkpurgecache_def del: purgecache.simps)
  show ?thesis
  proof (cases "map_of (imagecache ?s1) (imgpath_md5 s)")
    case None
    with post k show ?thesis
      by (auto simp: setimage_def Let_def fits_def exceeds_def)
  next
    case (Some e)
    then have "(imgpath_md5 s, e) \<in> set (imagecache ?s1)" by (rule map_of_SomeD)
    with sub nn have "0 \<le> entry_bytes e" by fastforce
    moreover from Some have "imagecache ?s1 \<noteq> []" by auto
    ultimately show ?thesis using post k Some
      by (auto simp: setimage_def Let_def fits_def exceeds_def)
  qed
qed

text \<open>
  C4 (amended). Whenever the byte counter equals the sum of the \<^verbatim>\<open>bytes\<close> fields of
  the entries of the memory cache (with its keys distinct, as in a dictionary), it still
  does after \<^verbatim>\<open>_setimage\<close>, \<^verbatim>\<open>_checkpurgecache\<close>, \<^verbatim>\<open>_purgecache\<close>,
  \<^verbatim>\<open>_delimage\<close> and \<^verbatim>\<open>_inc_occurrences\<close>. After an admission with the cache in
  use (and no entry of negative size), the counter is within
  \<^verbatim>\<open>cachemegs * 1024 * 1024\<close>, or else the cache holds the admitted entry alone: an
  entry larger than the whole budget is admitted into the emptied cache.
\<close>

theorem cachebytes_sum_of_entries:
  assumes "cache_inv s"
  shows "cache_inv (setimage cfg img s) \<and> cache_inv (checkpurgecache cfg bytes s) \<and>
         cache_inv (purgecache cfg bytes occurrences s) \<and> cache_inv (delimage k s) \<and>
         (\<forall>s'. inc_occurrences s = Inr s' \<longrightarrow> cache_inv s') \<and>
         (usecache cfg \<and> imageformat s \<noteq> ''[internal]'' \<and>
          (\<forall>p\<in>set (imagecache s). 0 \<le> entry_bytes (snd p)) \<longrightarrow>
            fits cfg (setimage cfg img s) \<or>
            map fst (imagecache (setimage cfg img s)) = [imgpath_md5 s])"
proof -
  have "fits cfg (setimage cfg img s) \<or>
        map fst (imagecache (setimage cfg img s)) = [imgpath_md5 s]"
    if "usecache cfg" "imageformat s \<noteq> ''[internal]''"
      "\<forall>p\<in>set (imagecache s). 0 \<le> entry_bytes (snd p)"
    using that by (rule setimage_bound)
  moreover have "cache_inv s'" if "inc_occurrences s = Inr s'" for s'
    using assms that by (rule inc_occurrences_inv)
  ultimately show ?thesis
    using setimage_inv [OF assms] checkpurgecache_inv [OF assms] purgecache_inv [OF assms]
      delimage_inv [OF assms]
    by (simp del: purgecache.simps)
qed


text \<open>A budget of 100 bytes (\<^verbatim>\<open>-cachemegs=0.000095367431640625\<close>).\<close>

definition small_budget :: options where
  "small_budget = default_options\<lparr>cachemegs := 25 / 262144\<rparr>"

text \<open>
  A cache of three grayscale images of 40, 40 and 20 bytes, placed 2, 1 and 3 times, in
  this iteration order; the current image is not cached yet.
\<close>

definition three_images :: opi where
  "three_images =
     initial_opi\<lparr>imagecache :=
         [(Some ''a'', gray_entry 8 5 2 ''a.tif''), (Some ''b'', gray_entry 8 5 1 ''b.tif''),
          (Some ''c'', gray_entry 5 4 3 ''c.tif'')],
       cachebytes := 100, max_occurrences := [1, 2, 3],
       imgpath_md5 := Some ''d'', imgASCIIpath := ''d.tif'', imageformat := ''tiff''\<rparr>"

lemma cachelimit_small [simp]: "cachelimit small_budget = 100"
  by (simp add: cachelimit_def small_budget_def default_options_def)

lemma usecache_small [simp]: "usecache small_budget"
  by (simp add: small_budget_def default_options_def)

lemma purge_three_images:
  "purgecache small_budget 40 0 three_images =
     three_images\<lparr>cachebytes := 60,
       imagecache := [(Some ''b'', gray_entry 8 5 1 ''b.tif''), (Some ''c'', gray_entry 5 4 3 ''c.tif'')],
       max_occurrences := [1, 2]\<rparr>"
  by (simp add: purge_round_def purge_threshold_def three_images_def initial_opi_def exceeds_def
      gray_entry_def Let_def AList.delete_eq)

theorem cachebytes_sum_of_entries_witness:
  "cache_inv three_images \<and>
   cache_inv (setimage small_budget (Raster (gray_image 8 5)) three_images) \<and>
   fits small_budget (setimage small_budget (Raster (gray_image 8 5)) three_images)"
proof -
  have i: "cache_inv three_images"
    by (simp add: cache_inv_def cache_total_def three_images_def initial_opi_def gray_entry_def)
  have "fits small_budget (setimage small_budget (Raster (gray_image 8 5)) three_images)"
    by (simp add: fits_def setimage_def checkpurgecache_def purge_three_images exceeds_def Let_def
        gray_image_def del: purgecache.simps)
      (simp add: three_images_def initial_opi_def)
  with i cachebytes_sum_of_entries [OF i, of small_budget "Raster (gray_image 8 5)"]
  show ?thesis by simp
qed

text \<open>
  C4, as stated, fails: with the cache empty and a budget of 100 bytes, admitting one
  grayscale image of 11 by 10 pixels leaves the counter at 110 bytes.
\<close>

theorem cachebytes_over_budget_counterexample:
  "cachebytes (setimage small_budget (Raster (gray_image 11 10))
       (initial_opi\<lparr>imgpath_md5 := Some ''d'', imageformat := ''tiff''\<rparr>)) = 110 \<and>
   cachelimit small_budget = 100 \<and>
   map fst (imagecache (setimage small_budget (Raster (gray_image 11 10))
       (initial_opi\<lparr>imgpath_md5 := Some ''d'', imageformat := ''tiff''\<rparr>))) = [Some ''d'']"
  by (simp add: setimage_def checkpurgecache_def purge_round_def purge_threshold_def exceeds_def
      Let_def gray_image_def initial_opi_def)












section \<open>EPS files\<close>

text \<open>\<^verbatim>\<open>s[a:b]\<close> for indices that are not negative.\<close>

definition slice :: "nat \<Rightarrow> nat \<Rightarrow> 'a list \<Rightarrow> 'a list" where
  "slice a b xs = take (b - a) (drop a xs)"

text \<open>
  \<^verbatim>\<open>int(binascii.hexlify(bs[::-1]), 16)\<close>: the bytes read as a little-endian number;
  \<^verbatim>\<open>int('', 16)\<close> raises \<^verbatim>\<open>ValueError\<close>.
\<close>

fun le_value :: "string \<Rightarrow> nat" where
  "le_value [] = 0"
| "le_value (c # cs) = of_char c + 256 * le_value cs"

definition le_int :: "string \<Rightarrow> pyerr + nat" where
  "le_int bs = (if bs = [] then Inl ValueError else Inr (le_value bs))"

text \<open>\<^verbatim>\<open>s.find(sub)\<close>: the lowest index where \<open>sub\<close> starts, \<open>None\<close> for \<open>-1\<close>.\<close>

fun find_from :: "string \<Rightarrow> string \<Rightarrow> nat \<Rightarrow> nat option" where
  "find_from sub [] i = (if sub = [] then Some i else None)"
| "find_from sub (c # cs) i =
     (if take (length sub) (c # cs) = sub then Some i else find_from sub cs (Suc i))"

definition str_find :: "string \<Rightarrow> string \<Rightarrow> nat option" where
  "str_find s sub = find_from sub s 0"

text \<open>\<^verbatim>\<open>s.split()\<close>: the maximal runs of characters that are not whitespace.\<close>

definition is_space :: "char \<Rightarrow> bool" where
  "is_space c = (c \<in> {CHR '' '', CHR 0x09, CHR 0x0A, CHR 0x0B, CHR 0x0C, CHR 0x0D})"

fun split_ws :: "string \<Rightarrow> string \<Rightarrow> string list" where
  "split_ws word [] = (if word = [] then [] else [word])"
| "split_ws word (c # cs) =
     (if is_space c then (if word = [] then split_ws [] cs else word # split_ws [] cs)
      else split_ws (word @ [c]) cs)"

definition str_split :: "string \<Rightarrow> string list" where
  "str_split s = split_ws [] s"

text \<open>
  \<^verbatim>\<open>floatlist(l)\<close>: the items that \<^verbatim>\<open>float\<close> accepts, converted. The parser of
  floats is Python's; it is the parameter \<open>pyfloat\<close>.
\<close>

definition floatlist :: "(string \<Rightarrow> real option) \<Rightarrow> string list \<Rightarrow> real list" where
  "floatlist pyfloat l = List.map_filter pyfloat l"

text \<open>The two signatures tested by \<^verbatim>\<open>EPSImage.__init__\<close>.\<close>

definition dos_eps_header :: string where
  "dos_eps_header = [CHR 0xC5, CHR 0xD0, CHR 0xD3, CHR 0xC6]"

text \<open>
  \<^verbatim>\<open>EPSImage.__init__\<close>, from the point where the file has been read into
  \<^verbatim>\<open>data\<close>. First the payload \<^verbatim>\<open>self.data\<close>.
\<close>

definition eps_payload :: "string \<Rightarrow> pyerr + string" where
  "eps_payload d =
     (if slice 0 4 d = dos_eps_header then
        (case le_int (slice 4 8 d) of
           Inl e \<Rightarrow> Inl e
         | Inr pscodebegin \<Rightarrow>
             (case le_int (slice 8 12 d) of
                Inl e \<Rightarrow> Inl e
              | Inr pscodelength \<Rightarrow> Inr (slice pscodebegin (pscodebegin + pscodelength) d)))
      else if slice 0 2 d = ''%!'' then Inr d
      else Inr [])"

text \<open>
  Then the bounding box. \<^verbatim>\<open>bbox[2]\<close> and \<^verbatim>\<open>bbox[3]\<close> raise \<^verbatim>\<open>IndexError\<close>
  when fewer than four numbers follow the comment; when the payload has no bounding box
  comment, \<^verbatim>\<open>size\<close> is never assigned.
\<close>

definition EPSImage_init :: "(string \<Rightarrow> real option) \<Rightarrow> string \<Rightarrow> pyerr + EPSImage" where
  "EPSImage_init pyfloat d =
     (case eps_payload d of
        Inl e \<Rightarrow> Inl e
      | Inr payload \<Rightarrow>
          if payload \<noteq> [] then
            (let i = (case str_find payload ''%%HiResBoundingBox'' of
                        None \<Rightarrow> str_find payload ''%%BoundingBox''
                      | Some i \<Rightarrow> Some i)
             in case i of
                  None \<Rightarrow> Inr \<lparr>data = payload, info_boundingbox = None, eps_size = None\<rparr>
                | Some i \<Rightarrow>
                    (let bbox = floatlist pyfloat (slice 1 5 (str_split (slice i (i + 128) payload)))
                     in if length bbox < 4 then Inl IndexError
                        else Inr \<lparr>data = payload, info_boundingbox = Some bbox,
                                  eps_size = Some (bbox ! 2 - bbox ! 0, bbox ! 3 - bbox ! 1)\<rparr>))
          else Inr \<lparr>data = [], info_boundingbox = None, eps_size = Some (0, 0)\<rparr>)"

text \<open>
  C10. File contents that start with neither the DOS EPS binary signature nor
  \<^verbatim>\<open>%!\<close> give an \<^verbatim>\<open>EPSImage\<close> with the empty payload and the size (0, 0), and no
  exception.
\<close>

theorem EPSImage_unrecognised_is_empty:
  assumes "take 4 d \<noteq> dos_eps_header" and "take 2 d \<noteq> ''%!''"
  shows "EPSImage_init pyfloat d = Inr \<lparr>data = [], info_boundingbox = None, eps_size = Some (0, 0)\<rparr>"
  using assms by (simp add: EPSImage_init_def eps_payload_def slice_def)

theorem EPSImage_unrecognised_is_empty_witness:
  "take 4 ''GIF89a'' \<noteq> dos_eps_header \<and> take 2 ''GIF89a'' \<noteq> ''%!'' \<and>
   EPSImage_init (\<lambda>w. None) ''GIF89a'' =
     Inr \<lparr>data = [], info_boundingbox = None, eps_size = Some (0, 0)\<rparr>"
proof -
  have a: "take 4 ''GIF89a'' \<noteq> dos_eps_header" by (simp add: dos_eps_header_def)
  have b: "take 2 ''GIF89a'' \<noteq> ''%!''" by simp
  from EPSImage_unrecognised_is_empty [OF a b] a b show ?thesis by simp
qed

lemma EPSImage_ascii_example:
  "EPSImage_init (\<lambda>w. if w = ''0'' then Some 0 else if w = ''72'' then Some 72 else None)
     ''%!PS %%BoundingBox: 0 0 72 72 '' =
   Inr \<lparr>data = ''%!PS %%BoundingBox: 0 0 72 72 '', info_boundingbox = Some [0, 0, 72, 72],
        eps_size = Some (72, 72)\<rparr>"
  by (simp add: EPSImage_init_def eps_payload_def slice_def str_find_def str_split_def floatlist_def
      dos_eps_header_def is_space_def List.map_filter_def)

section \<open>Output and abort\<close>

text \<open>\<^verbatim>\<open>_raw_write(data)\<close>: nothing is written once the parser has aborted.\<close>

definition raw_write :: "string \<Rightarrow> opi \<Rightarrow> opi" where
  "raw_write d s = (if \<not> aborted s then s\<lparr>fo := fo s @ [d]\<rparr> else s)"

text \<open>\<^verbatim>\<open>_abort()\<close>\<close>

definition abort :: "opi \<Rightarrow> opi" where
  "abort s = (reset s)\<lparr>aborted := True\<rparr>"

section \<open>Images and the services outside the program\<close>

text \<open>
  Python floats are IEEE doubles. A float is modelled by the real number that is its
  value. Comparison, \<^verbatim>\<open>math.floor\<close>, \<^verbatim>\<open>math.ceil\<close>, \<^verbatim>\<open>round\<close> and the conversion of
  an int are exact on doubles (for ints below \<open>2^53\<close>) and are the operations of the
  reals here. Subtraction, multiplication and division round their results; they are
  parameters of the model (\<open>fsub\<close>, \<open>fmul\<close> and \<open>fquot\<close> below).
\<close>

text \<open>\<^verbatim>\<open>int(round(x))\<close>: Python 2 rounds halves away from zero.\<close>

definition py_round :: "real \<Rightarrow> int" where
  "py_round x = (if 0 \<le> x then \<lfloor>x + 1 / 2\<rfloor> else \<lceil>x - 1 / 2\<rceil>)"

text \<open>\<^verbatim>\<open>intlist\<close> on a list of four floats.\<close>

definition intlist4 :: "real \<times> real \<times> real \<times> real \<Rightarrow> int \<times> int \<times> int \<times> int" where
  "intlist4 q = (case q of (a, b, c, d) \<Rightarrow> (py_round a, py_round b, py_round c, py_round d))"

text \<open>
  What \<^verbatim>\<open>_ICCtransform\<close> comes to once the ICC profiles have been looked at: no
  conversion, the abort for a profile of an unsupported colour space, the image returned
  by \<^verbatim>\<open>transform.apply\<close>, or an exception of the colour management library.
\<close>

datatype icc_outcome = Skipped | Unsupported | Converted pil_image | Raised

text \<open>The primitives of \<^verbatim>\<open>ImageDraw\<close> used for the placeholder image.\<close>

datatype draw_op =
    New string "int \<times> int" "nat list"
  | Line "int \<times> int \<times> int \<times> int" "nat list"
  | Rectangle "int \<times> int \<times> int \<times> int" "nat list" "nat list"
  | Text "int \<times> int" string "nat list"

text \<open>
  The file system, PIL, the colour management and the hash functions are parameters of
  the model:
  \<^item> \<open>md5\<close>: \<^verbatim>\<open>md5(p).hexdigest()\<close>;
  \<^item> \<open>tmppath sizemod colormod s\<close>: the cache path
    \<^verbatim>\<open>_gettmppath() + "." + crc32(_getimageconf(sizemod, colormod)) + _imageextension\<close>,
    and \<open>gettmppath s\<close>: \<^verbatim>\<open>_gettmppath()\<close>;
  \<^item> \<open>isfile\<close>: \<^verbatim>\<open>path.exists(p) and path.isfile(p)\<close>; \<open>st_mtime\<close>:
    \<^verbatim>\<open>int(os.stat(p).st_mtime)\<close>, \<open>None\<close> when \<^verbatim>\<open>os.stat\<close> raises;
  \<^item> \<open>Image_open\<close>: \<^verbatim>\<open>Image.open(p)\<close> and \<open>file_read\<close>: the bytes of a file, \<open>None\<close>
    for an \<^verbatim>\<open>IOError\<close>; \<open>pyfloat\<close>: \<^verbatim>\<open>float(v)\<close>;
  \<^item> \<open>load_raises\<close>, \<open>resize_raises\<close>, \<open>strip_raises\<close>, \<open>tostring_raises\<close>: whether the PIL
    call raises on this image; \<open>resample\<close>: the pixels that \<^verbatim>\<open>resize\<close> computes (the
    resampling filter is part of it); \<open>render\<close>: the pixels that a list of drawing
    primitives produces, \<open>font_getsize\<close>: \<^verbatim>\<open>font.getsize(text)\<close>;
  \<^item> \<open>icc_plan\<close>: the outcome of the colour conversion of the current image;
  \<^item> \<open>fsub\<close>, \<open>fmul\<close>, \<open>fquot\<close>: the subtraction, multiplication and division of doubles
    (\<open>fquot\<close> for a divisor other than 0; Python raises \<^verbatim>\<open>ZeroDivisionError\<close> on 0).
\<close>

record env =
  md5 :: "string \<Rightarrow> string"
  tmppath :: "bool \<Rightarrow> bool \<Rightarrow> opi \<Rightarrow> string"
  gettmppath :: "opi \<Rightarrow> string"
  isfile :: "string \<Rightarrow> bool"
  st_mtime :: "string \<Rightarrow> int option"
  Image_open :: "string \<Rightarrow> pil_image option"
  file_read :: "string \<Rightarrow> string option"
  pyfloat :: "string \<Rightarrow> real option"
  load_raises :: "pil_image \<Rightarrow> bool"
  resize_raises :: "pil_image \<Rightarrow> int \<times> int \<Rightarrow> bool"
  resample :: "pil_image \<Rightarrow> int \<times> int \<Rightarrow> nat list list"
  strip_raises :: "pil_image \<Rightarrow> bool"
  tostring_raises :: "pil_image \<Rightarrow> bool"
  render :: "draw_op list \<Rightarrow> nat list list"
  font_getsize :: "string \<Rightarrow> int \<times> int"
  icc_plan :: "options \<Rightarrow> opi \<Rightarrow> pil_image \<Rightarrow> icc_outcome"
  fsub :: "real \<Rightarrow> real \<Rightarrow> real"
  fmul :: "real \<Rightarrow> real \<Rightarrow> real"
  fquot :: "real \<Rightarrow> real \<Rightarrow> real"

text \<open>
  The PIL image behind \<^verbatim>\<open>self._getimage()\<close>. The raster branches of \<^verbatim>\<open>_write\<close>
  run for formats other than \<^verbatim>\<open>epsf\<close>, where the payload is a PIL image; reading the
  PIL attributes of an \<^verbatim>\<open>EPSImage\<close> does not arise there and is an
  \<^verbatim>\<open>AttributeError\<close> in the model.
\<close>

definition getraster :: "opi \<Rightarrow> pyerr + pil_image" where
  "getraster s =
     (case getimage s of
        Inl e \<Rightarrow> Inl e
      | Inr (Raster im) \<Rightarrow> Inr im
      | Inr (Epsf eps) \<Rightarrow> Inl AttributeError)"

text \<open>
  \<^verbatim>\<open>self._getimage().info = info\<close>: the assignment changes the image object that the
  cache entry holds.
\<close>

definition set_info :: "(real \<times> real) option \<Rightarrow> opi \<Rightarrow> opi" where
  "set_info dpi s =
     (case map_of (imagecache s) (imgpath_md5 s) of
        Some e \<Rightarrow>
          (case entry_image e of
             Raster im \<Rightarrow>
               s\<lparr>imagecache := AList.update (imgpath_md5 s)
                    (e\<lparr>entry_image := Raster (im\<lparr>info_dpi := dpi\<rparr>)\<rparr>) (imagecache s)\<rparr>
           | Epsf eps \<Rightarrow> s)
      | None \<Rightarrow> s)"

text \<open>\<^verbatim>\<open>image.getpixel((x, y))\<close>\<close>

definition getpixel :: "pil_image \<Rightarrow> int \<times> int \<Rightarrow> pyerr + nat list" where
  "getpixel im xy =
     (case (xy, size_px im) of
        ((x, y), (w, h)) \<Rightarrow>
          if 0 \<le> x \<and> x < w \<and> 0 \<le> y \<and> y < h \<and> nat (y * w + x) < length (pixels im)
          then Inr (pixels im ! nat (y * w + x)) else Inl IndexError)"

text \<open>\<^verbatim>\<open>image.split()[i].tostring()\<close>: the bytes of one band.\<close>

definition band :: "pil_image \<Rightarrow> nat \<Rightarrow> nat list" where
  "band im i = map (\<lambda>p. p ! i) (pixels im)"

text \<open>
  \<^verbatim>\<open>image.crop(box)\<close>: the result has the size of the box and an empty \<^verbatim>\<open>info\<close>;
  pixels outside the image are 0.
\<close>

definition pixel_at :: "pil_image \<Rightarrow> int \<Rightarrow> int \<Rightarrow> nat list" where
  "pixel_at im x y =
     (case size_px im of
        (w, h) \<Rightarrow>
          if 0 \<le> x \<and> x < w \<and> 0 \<le> y \<and> y < h \<and> nat (y * w + x) < length (pixels im)
          then pixels im ! nat (y * w + x) else replicate (length (mode im)) 0)"

definition crop :: "pil_image \<Rightarrow> int \<times> int \<times> int \<times> int \<Rightarrow> pil_image" where
  "crop im box =
     (case box of
        (x1, y1, x2, y2) \<Rightarrow>
          \<lparr>mode = mode im, size_px = (x2 - x1, y2 - y1), info_dpi = None,
           pixels = concat (map (\<lambda>y. map (\<lambda>x. pixel_at im x y) [x1..x2 - 1]) [y1..y2 - 1])\<rparr>)"

text \<open>\<^verbatim>\<open>image.resize(size, filter)\<close>: the result has the requested size.\<close>

definition resize :: "env \<Rightarrow> pil_image \<Rightarrow> int \<times> int \<Rightarrow> pil_image" where
  "resize env im sz = im\<lparr>size_px := sz, pixels := resample env im sz\<rparr>"

text \<open>
  \<^verbatim>\<open>ImageChops.invert(Image.merge("L", [channels[3]]))\<close>: the fourth band, inverted, as
  a grayscale image.
\<close>

definition inverted_K :: "pil_image \<Rightarrow> pil_image" where
  "inverted_K im =
     \<lparr>mode = ''L'', size_px = size_px im, info_dpi = None,
      pixels = map (\<lambda>p. [255 - p ! 3]) (pixels im)\<rparr>"

section \<open>Detection of CMYK images that are gray\<close>

text \<open>\<^verbatim>\<open>test[0] == test[1] == test[2] == 0\<close>\<close>

definition cmy_zero :: "nat list \<Rightarrow> bool" where
  "cmy_zero t = (t ! 0 = t ! 1 \<and> t ! 1 = t ! 2 \<and> t ! 2 = 0)"

text \<open>The five pixels tested first (\<^verbatim>\<open>/\<close> is the floor division of ints).\<close>

definition sample_points :: "int \<times> int \<Rightarrow> (int \<times> int) list" where
  "sample_points sz =
     (case sz of
        (w, h) \<Rightarrow>
          [(w div 4, h div 4), ((w div 4) * 3, h div 4), (w div 2, h div 2),
           (w div 4, (h div 4) * 3), ((w div 4) * 3, (h div 4) * 3)])"

text \<open>
  The nested tests of the five pixels: each pixel is read only when the ones before it
  had no cyan, magenta or yellow.
\<close>

fun samples_zero :: "pil_image \<Rightarrow> (int \<times> int) list \<Rightarrow> pyerr + bool" where
  "samples_zero im [] = Inr True"
| "samples_zero im (p # ps) =
     (case getpixel im p of
        Inl e \<Rightarrow> Inl e
      | Inr t \<Rightarrow> if cmy_zero t then samples_zero im ps else Inr False)"

text \<open>
  \<^verbatim>\<open>zero == channels[0].tostring() == channels[1].tostring() == channels[2].tostring()\<close>,
  where \<^verbatim>\<open>zero\<close> is one band of a new image of the same size filled with 0.
\<close>

definition cmy_bands_zero :: "pil_image \<Rightarrow> bool" where
  "cmy_bands_zero im =
     (let zero = replicate (nat (fst (size_px im) * snd (size_px im))) 0
      in zero = band im 0 \<and> band im 0 = band im 1 \<and> band im 1 = band im 2)"

text \<open>The condition at the head of \<^verbatim>\<open>_detectcmykgrayimages\<close>, without the test of the mode.\<close>

definition detection_applies :: "options \<Rightarrow> bool" where
  "detection_applies cfg =
     (detectcmykgrayimages cfg \<and>
      (((convertcmykimages cfg \<or> convertgrayimages cfg) \<and> out_fileName cfg \<noteq> []) \<or>
       (convertgrayimages cfg \<and> out_gray_fileName cfg \<noteq> []) \<or>
       cmykgrayimages_stripcmy cfg))"

text \<open>The condition under which the CMY channels of a detected gray image are stripped.\<close>

definition strip_applies :: "options \<Rightarrow> bool" where
  "strip_applies cfg =
     ((\<not> convertgrayimages cfg \<or> \<not> (out_gray_fileName cfg \<noteq> [] \<or> out_fileName cfg \<noteq> [])) \<and>
      cmykgrayimages_stripcmy cfg)"

text \<open>\<^verbatim>\<open>_detectcmykgrayimages()\<close>\<close>

definition detectcmykgrayimages_run :: "env \<Rightarrow> options \<Rightarrow> opi \<Rightarrow> pyerr + opi" where
  "detectcmykgrayimages_run env cfg s =
     (case getraster s of
        Inl e \<Rightarrow> Inl e
      | Inr im \<Rightarrow>
          if mode im = ''CMYK'' \<and> detection_applies cfg then
            (case samples_zero im (sample_points (size_px im)) of
               Inl e \<Rightarrow> Inl e
             | Inr False \<Rightarrow> Inr s
             | Inr True \<Rightarrow>
                 if cmy_bands_zero im then
                   (let s1 = s\<lparr>iscmykgrayimage := True\<rparr>
                    in if strip_applies cfg then
                         (if strip_raises env im
                          then Inr (abort (s1\<lparr>errorcount := errorcount s1 + 1\<rparr>))
                          else Inr (setimage cfg (Raster (inverted_K im)) s1))
                       else Inr s1)
                 else Inr s)
          else Inr s)"


text \<open>
  A PIL image is well formed when it has a positive width and height, one pixel per
  position and one value per band in every pixel.
\<close>

definition wf_image :: "pil_image \<Rightarrow> bool" where
  "wf_image im =
     (0 < fst (size_px im) \<and> 0 < snd (size_px im) \<and>
      length (pixels im) = nat (fst (size_px im) * snd (size_px im)) \<and>
      list_all (\<lambda>p. length p = length (mode im)) (pixels im))"

text \<open>The pixel at a position has no cyan, magenta or yellow.\<close>

definition sample_zero :: "pil_image \<Rightarrow> int \<times> int \<Rightarrow> bool" where
  "sample_zero im xy = (case getpixel im xy of Inl e \<Rightarrow> False | Inr t \<Rightarrow> cmy_zero t)"

lemma getpixel_in_range:
  assumes "wf_image im" and "0 \<le> x" "x < fst (size_px im)" "0 \<le> y" "y < snd (size_px im)"
  shows "getpixel im (x, y) = Inr (pixels im ! nat (y * fst (size_px im) + x))"
    and "nat (y * fst (size_px im) + x) < length (pixels im)"
proof -
  obtain w h where sz: "size_px im = (w, h)" by (cases "size_px im")
  from assms sz have "y * w + x < (y + 1) * w" by (simp add: algebra_simps)
  also from assms sz have "(y + 1) * w \<le> h * w" by (intro mult_right_mono) auto
  finally have "y * w + x < w * h" by (simp add: mult.commute)
  moreover from assms sz have "0 \<le> y * w + x" by simp
  ultimately have "nat (y * w + x) < nat (w * h)" by linarith
  with assms sz show "nat (y * fst (size_px im) + x) < length (pixels im)"
    by (simp add: wf_image_def)
  with assms sz show "getpixel im (x, y) = Inr (pixels im ! nat (y * fst (size_px im) + x))"
    by (simp add: getpixel_def)
qed

lemma sample_points_in_range:
  assumes "wf_image im" and "xy \<in> set (sample_points (size_px im))"
  shows "\<exists>t. getpixel im xy = Inr t \<and> t \<in> set (pixels im)"
proof -
  obtain w h where sz: "size_px im = (w, h)" by (cases "size_px im")
  obtain x y where xy: "xy = (x, y)" by (cases xy)
  from assms(1) sz have pos: "0 < w" "0 < h" by (simp_all add: wf_image_def)
  from assms(2) sz xy pos have "0 \<le> x \<and> x < w \<and> 0 \<le> y \<and> y < h"
    by (auto simp: sample_points_def)
  with getpixel_in_range [OF assms(1), of x y] sz xy show ?thesis
    by (auto intro: nth_mem)
qed

lemma samples_zero_in_range:
  "(\<And>xy. xy \<in> set ps \<Longrightarrow> \<exists>t. getpixel im xy = Inr t) \<Longrightarrow>
     samples_zero im ps = Inr (list_all (sample_zero im) ps)"
proof (induction ps)
  case Nil
  then show ?case by simp
next
  case (Cons p ps)
  from Cons.prems [of p] obtain t where t: "getpixel im p = Inr t" by auto
  from Cons.IH Cons.prems have "samples_zero im ps = Inr (list_all (sample_zero im) ps)" by simp
  moreover from t have "sample_zero im p = cmy_zero t" by (simp add: sample_zero_def)
  ultimately show ?case using t by simp
qed

lemma band_zero_iff:
  "replicate (length ps) 0 = map (\<lambda>p. p ! i) ps \<longleftrightarrow> list_all (\<lambda>p. p ! i = 0) ps"
  by (induction ps) auto

lemma cmy_bands_zero_iff:
  assumes "wf_image im"
  shows "cmy_bands_zero im = list_all cmy_zero (pixels im)"
proof -
  from assms have n: "nat (fst (size_px im) * snd (size_px im)) = length (pixels im)"
    by (simp add: wf_image_def)
  have "cmy_bands_zero im \<longleftrightarrow>
      list_all (\<lambda>p. p ! 0 = 0) (pixels im) \<and> list_all (\<lambda>p. p ! 1 = 0) (pixels im) \<and>
      list_all (\<lambda>p. p ! 2 = 0) (pixels im)"
    unfolding cmy_bands_zero_def Let_def n band_def
    using band_zero_iff [of "pixels im" 0] band_zero_iff [of "pixels im" 1]
      band_zero_iff [of "pixels im" 2]
    by metis
  also have "\<dots> \<longleftrightarrow> list_all cmy_zero (pixels im)"
    by (auto simp: list_all_iff cmy_zero_def)
  finally show ?thesis .
qed

lemma checkpurgecache_imgpath_md5 [simp]:
  "imgpath_md5 (checkpurgecache cfg bytes s) = imgpath_md5 s"
  by (simp add: checkpurgecache_def delimage_def Let_def split: option.splits del: purgecache.simps)

lemma getimage_setimage [simp]: "getimage (setimage cfg img s) = Inr img"
  by (simp add: getimage_def setimage_def Let_def update_conv' split: option.splits)

lemma imgpath_md5_setimage [simp]: "imgpath_md5 (setimage cfg img s) = imgpath_md5 s"
  by (simp add: setimage_def Let_def split: option.splits)


text \<open>
  The cache operations change the three attributes of the cache and nothing else:
  \<open>cache_only s s'\<close> says that \<open>s'\<close> is \<open>s\<close> but for them.
\<close>

definition cache_only :: "opi \<Rightarrow> opi \<Rightarrow> bool" where
  "cache_only s s' =
     (s'\<lparr>cachebytes := 0, imagecache := [], max_occurrences := []\<rparr> =
      s\<lparr>cachebytes := 0, imagecache := [], max_occurrences := []\<rparr>)"

lemma cache_only_refl [simp]: "cache_only s s"
  by (simp add: cache_only_def)

lemma cache_only_trans: "cache_only s s1 \<Longrightarrow> cache_only s1 s2 \<Longrightarrow> cache_only s s2"
  by (simp add: cache_only_def)

lemma cache_only_step:
  "cache_only s s1 \<Longrightarrow> cache_only s (s1\<lparr>cachebytes := cb\<rparr>)"
  "cache_only s s1 \<Longrightarrow> cache_only s (s1\<lparr>imagecache := c\<rparr>)"
  "cache_only s s1 \<Longrightarrow> cache_only s (s1\<lparr>max_occurrences := mo\<rparr>)"
  by (simp_all add: cache_only_def)

lemma purge_round_cache_only: "cache_only s (fst (purge_round cfg bytes occurrences s))"
  by (simp add: purge_round_def Let_def cache_only_step split: prod.splits)

lemma purgecache_cache_only: "cache_only s (purgecache cfg bytes occurrences s)"
proof (induction cfg bytes occurrences s rule: purgecache.induct)
  case (1 cfg bytes occurrences s)
  obtain s' occ' where r: "purge_round cfg bytes occurrences s = (s', occ')"
    by (cases "purge_round cfg bytes occurrences s")
  with purge_round_cache_only [of s cfg bytes occurrences] have k: "cache_only s s'" by simp
  show ?case
  proof (cases "exceeds cfg (cachebytes s') bytes \<and> imagecache s' \<noteq> []")
    case True
    from cache_only_trans [OF k "1.IH" [OF r [symmetric] True]] True r show ?thesis
      by (auto simp del: purgecache.simps simp add: purgecache.simps [of cfg bytes occurrences s])
  next
    case False
    with r k show ?thesis
      by (auto simp del: purgecache.simps simp add: purgecache.simps [of cfg bytes occurrences s])
  qed
qed

lemma delimage_cache_only: "cache_only s (delimage k s)"
  by (simp add: delimage_def Let_def cache_only_step split: option.splits)

lemma checkpurgecache_cache_only: "cache_only s (checkpurgecache cfg bytes s)"
  using purgecache_cache_only [of s cfg bytes 0] delimage_cache_only [of s None]
  by (simp add: checkpurgecache_def Let_def cache_only_step del: purgecache.simps)

lemma setimage_cache_only: "cache_only s (setimage cfg img s)"
  using checkpurgecache_cache_only [of s cfg "image_bytes img"]
  by (simp add: setimage_def Let_def cache_only_step split: option.splits)

lemma cache_only_fields:
  assumes "cache_only s s'"
  shows "aborted s' = aborted s" "errorcount s' = errorcount s" "fo s' = fo s"
    "imgpath_md5 s' = imgpath_md5 s" "imgASCIIpath s' = imgASCIIpath s"
    "iscmykgrayimage s' = iscmykgrayimage s" "IncludedImageDimensions s' = IncludedImageDimensions s"
    "DownsampleFactor s' = DownsampleFactor s" "RealCropRect s' = RealCropRect s"
    "ImageCropFixed s' = ImageCropFixed s" "sizemod s' = sizemod s" "imageformat s' = imageformat s"
    "obj_version s' = obj_version s" "DownsampleDimensions s' = DownsampleDimensions s"
proof -
  note e = assms [unfolded cache_only_def]
  show "aborted s' = aborted s" using arg_cong [OF e, of aborted] by simp
  show "errorcount s' = errorcount s" using arg_cong [OF e, of errorcount] by simp
  show "fo s' = fo s" using arg_cong [OF e, of fo] by simp
  show "imgpath_md5 s' = imgpath_md5 s" using arg_cong [OF e, of imgpath_md5] by simp
  show "imgASCIIpath s' = imgASCIIpath s" using arg_cong [OF e, of imgASCIIpath] by simp
  show "iscmykgrayimage s' = iscmykgrayimage s" using arg_cong [OF e, of iscmykgrayimage] by simp
  show "IncludedImageDimensions s' = IncludedImageDimensions s" using arg_cong [OF e, of IncludedImageDimensions] by simp
  show "DownsampleFactor s' = DownsampleFactor s" using arg_cong [OF e, of DownsampleFactor] by simp
  show "RealCropRect s' = RealCropRect s" using arg_cong [OF e, of RealCropRect] by simp
  show "ImageCropFixed s' = ImageCropFixed s" using arg_cong [OF e, of ImageCropFixed] by simp
  show "sizemod s' = sizemod s" using arg_cong [OF e, of sizemod] by simp
  show "imageformat s' = imageformat s" using arg_cong [OF e, of imageformat] by simp
  show "obj_version s' = obj_version s" using arg_cong [OF e, of obj_version] by simp
  show "DownsampleDimensions s' = DownsampleDimensions s" using arg_cong [OF e, of DownsampleDimensions] by simp
qed


text \<open>
  C9 (amended). Let the current image be a well-formed CMYK image, with detection
  enabled and an output conversion configured (or stripping). The five pixels at
  (W/4, H/4), ((W/4)*3, H/4), (W/2, H/2), (W/4, (H/4)*3), ((W/4)*3, (H/4)*3), in integer
  arithmetic, are tested first; when one of them has cyan, magenta or yellow the image
  counts as colour and nothing changes. Otherwise the C, M and Y bands are compared with
  a band of zeros of the same size, and the image is a CMYK gray exactly when all three
  are zero, that is when no pixel has cyan, magenta or yellow. A CMYK gray is replaced by
  its inverted K band as a grayscale image (mode L) when stripping is configured and
  gray conversion is not (\<^verbatim>\<open>convertgrayimages\<close> off, or neither the output profile nor
  the gray output profile set); a failure of that replacement counts an error and aborts.
\<close>

theorem detectcmykgrayimages_classifies:
  assumes "getraster s = Inr im" and "mode im = ''CMYK''" and "wf_image im"
    and "detection_applies cfg"
  shows "detectcmykgrayimages_run env cfg s =
           Inr (if list_all (sample_zero im) (sample_points (size_px im)) \<and> cmy_bands_zero im
                then (if strip_applies cfg
                      then (if strip_raises env im
                            then abort (s\<lparr>iscmykgrayimage := True, errorcount := errorcount s + 1\<rparr>)
                            else setimage cfg (Raster (inverted_K im)) (s\<lparr>iscmykgrayimage := True\<rparr>))
                      else s\<lparr>iscmykgrayimage := True\<rparr>)
                else s) \<and>
         (list_all (sample_zero im) (sample_points (size_px im)) \<and> cmy_bands_zero im) =
           list_all cmy_zero (pixels im) \<and>
         getimage (setimage cfg (Raster (inverted_K im)) (s\<lparr>iscmykgrayimage := True\<rparr>)) =
           Inr (Raster (inverted_K im)) \<and>
         iscmykgrayimage (setimage cfg (Raster (inverted_K im)) (s\<lparr>iscmykgrayimage := True\<rparr>)) \<and>
         mode (inverted_K im) = ''L'' \<and> size_px (inverted_K im) = size_px im"
proof -
  let ?pts = "sample_points (size_px im)"
  have rng: "\<exists>t. getpixel im xy = Inr t \<and> t \<in> set (pixels im)" if "xy \<in> set ?pts" for xy
    using assms(3) that by (rule sample_points_in_range)
  then have sz: "samples_zero im ?pts = Inr (list_all (sample_zero im) ?pts)"
    by (intro samples_zero_in_range) blast
  have run: "detectcmykgrayimages_run env cfg s =
           Inr (if list_all (sample_zero im) ?pts \<and> cmy_bands_zero im
                then (if strip_applies cfg
                      then (if strip_raises env im
                            then abort (s\<lparr>iscmykgrayimage := True, errorcount := errorcount s + 1\<rparr>)
                            else setimage cfg (Raster (inverted_K im)) (s\<lparr>iscmykgrayimage := True\<rparr>))
                      else s\<lparr>iscmykgrayimage := True\<rparr>)
                else s)"
    using assms(1,2,4) by (simp add: detectcmykgrayimages_run_def sz Let_def split: bool.splits)
  have "list_all (sample_zero im) ?pts" if "list_all cmy_zero (pixels im)"
  proof -
    have "sample_zero im xy" if "xy \<in> set ?pts" for xy
    proof -
      from rng [OF that] obtain t where "getpixel im xy = Inr t" "t \<in> set (pixels im)" by blast
      with \<open>list_all cmy_zero (pixels im)\<close> show ?thesis
        by (simp add: sample_zero_def list_all_iff)
    qed
    then show ?thesis by (simp add: list_all_iff)
  qed
  with cmy_bands_zero_iff [OF assms(3)]
  have cls: "(list_all (sample_zero im) ?pts \<and> cmy_bands_zero im) = list_all cmy_zero (pixels im)"
    by blast
  have "iscmykgrayimage (setimage cfg (Raster (inverted_K im)) (s\<lparr>iscmykgrayimage := True\<rparr>))"
    using cache_only_fields(6) [OF setimage_cache_only] by simp
  with run cls show ?thesis by (simp add: inverted_K_def)
qed

text \<open>
  Services for concrete runs: no file exists, no PIL call fails, no colour conversion.
  The arithmetic is exact; the concrete runs of this theory that compute with floats use
  numbers on which the operations of doubles are exact as well (every operand and result
  is an integer or a multiple of a small power of 1/2).
\<close>

definition plain_env :: env where
  "plain_env =
     \<lparr>md5 = (\<lambda>p. p),
      tmppath = (\<lambda>sm cm s. ''cache/'' @ ImageFileName s @ (if sm then ''.s'' else ''.-'') @
                            (if cm then ''c'' else ''-'') @ imageextension s),
      gettmppath = (\<lambda>s. ''cache/'' @ ImageFileName s),
      isfile = (\<lambda>p. False), st_mtime = (\<lambda>p. None), Image_open = (\<lambda>p. None),
      file_read = (\<lambda>p. None), pyfloat = (\<lambda>w. None), load_raises = (\<lambda>im. False),
      resize_raises = (\<lambda>im sz. False),
      resample = (\<lambda>im sz. replicate (nat (fst sz * snd sz)) (replicate (length (mode im)) 0)),
      strip_raises = (\<lambda>im. False), tostring_raises = (\<lambda>im. False),
      render = (\<lambda>ops. []), font_getsize = (\<lambda>t. (6 * int (length t), 11)),
      icc_plan = (\<lambda>cfg s im. Skipped),
      fsub = (\<lambda>a b. a - b), fmul = (\<lambda>a b. a * b), fquot = (\<lambda>a b. a / b)\<rparr>"

text \<open>A CMYK image of 2 by 2 pixels with ink in the K band only, open as the current image.\<close>

definition k_only_image :: pil_image where
  "k_only_image =
     \<lparr>mode = ''CMYK'', size_px = (2, 2), info_dpi = None,
      pixels = [[0, 0, 0, 10], [0, 0, 0, 20], [0, 0, 0, 30], [0, 0, 0, 40]]\<rparr>"

definition k_only_open :: opi where
  "k_only_open =
     initial_opi\<lparr>imagecache :=
         [(Some ''k.tif'', \<lparr>entry_image = Raster k_only_image, entry_bytes = 16,
                           entry_occurrences = 0, entry_path = ''k.tif''\<rparr>)],
       cachebytes := 16, imgpath_md5 := Some ''k.tif'', imgASCIIpath := ''k.tif'',
       imageformat := ''tiff'', imageextension := ''.tif'', ImageFileName := ''k.tif''\<rparr>"

lemma k_only_facts:
  "getraster k_only_open = Inr k_only_image" "mode k_only_image = ''CMYK''"
  "wf_image k_only_image" "size_px k_only_image = (2, 2)"
  by (simp_all add: getraster_def getimage_def k_only_open_def initial_opi_def k_only_image_def
      wf_image_def)

lemma k_only_bands: "cmy_bands_zero k_only_image"
  by (simp add: cmy_bands_zero_def band_def k_only_image_def Let_def eval_nat_numeral)

theorem detectcmykgrayimages_classifies_witness:
  "getraster k_only_open = Inr k_only_image \<and> mode k_only_image = ''CMYK'' \<and>
   wf_image k_only_image \<and>
   detection_applies (default_options\<lparr>cmykgrayimages_stripcmy := True\<rparr>) \<and>
   detectcmykgrayimages_run plain_env (default_options\<lparr>cmykgrayimages_stripcmy := True\<rparr>)
       k_only_open =
     Inr (setimage (default_options\<lparr>cmykgrayimages_stripcmy := True\<rparr>)
           (Raster (inverted_K k_only_image)) (k_only_open\<lparr>iscmykgrayimage := True\<rparr>)) \<and>
   inverted_K k_only_image =
     \<lparr>mode = ''L'', size_px = (2, 2), info_dpi = None, pixels = [[245], [235], [225], [215]]\<rparr>"
proof -
  let ?cfg = "default_options\<lparr>cmykgrayimages_stripcmy := True\<rparr>"
  have d: "detection_applies ?cfg" and st: "strip_applies ?cfg"
    by (simp_all add: detection_applies_def strip_applies_def default_options_def)
  have z: "list_all cmy_zero (pixels k_only_image)"
    by (simp add: k_only_image_def cmy_zero_def)
  have i: "inverted_K k_only_image =
     \<lparr>mode = ''L'', size_px = (2, 2), info_dpi = None, pixels = [[245], [235], [225], [215]]\<rparr>"
    by (simp add: inverted_K_def k_only_image_def)
  have r: "\<not> strip_raises plain_env k_only_image" by (simp add: plain_env_def)
  from detectcmykgrayimages_classifies [OF k_only_facts(1,2,3) d, of plain_env] z st r
  have "detectcmykgrayimages_run plain_env ?cfg k_only_open =
     Inr (setimage ?cfg (Raster (inverted_K k_only_image)) (k_only_open\<lparr>iscmykgrayimage := True\<rparr>))"
    by simp
  with k_only_facts d i show ?thesis by simp
qed

text \<open>
  C9, as stated, fails: with stripping configured together with gray conversion to a
  gray output profile, the K-only image is detected as a CMYK gray and stays a CMYK
  image.
\<close>

theorem stripcmy_not_applied_counterexample:
  "cmykgrayimages_stripcmy
     (default_options\<lparr>cmykgrayimages_stripcmy := True, convertgrayimages := True,
        out_gray_fileName := ''gray.icc''\<rparr>) \<and>
   detectcmykgrayimages_run plain_env
     (default_options\<lparr>cmykgrayimages_stripcmy := True, convertgrayimages := True,
        out_gray_fileName := ''gray.icc''\<rparr>) k_only_open =
     Inr (k_only_open\<lparr>iscmykgrayimage := True\<rparr>) \<and>
   getraster (k_only_open\<lparr>iscmykgrayimage := True\<rparr>) = Inr k_only_image \<and>
   mode k_only_image = ''CMYK''"
  by (simp add: detectcmykgrayimages_run_def k_only_facts k_only_bands detection_applies_def
      strip_applies_def default_options_def sample_points_def getpixel_def Let_def)
    (simp add: getraster_def getimage_def k_only_open_def initial_opi_def k_only_image_def
      cmy_zero_def)

section \<open>Downsample dimensions\<close>

text \<open>
  The target resolution of one class of images in \<^verbatim>\<open>_SetDownsampleDimensions\<close>: the
  resolution embedded in the image when it is to be used and both its values exceed the
  configured one, else the configured one for both axes.
\<close>

definition target_res :: "pil_image \<Rightarrow> bool \<Rightarrow> real \<Rightarrow> real \<times> real" where
  "target_res im use_embedded res =
     (case info_dpi im of
        Some (dx, dy) \<Rightarrow> if use_embedded \<and> min dx dy > res then (dx, dy) else (res, res)
      | None \<Rightarrow> (res, res))"

text \<open>
  The class of the image: target resolution, threshold, and whether the size factor
  enters the products (it does not in the branch for 1-bit images); \<open>None\<close> when none of
  the three branches is taken.
\<close>

definition downsample_class ::
  "options \<Rightarrow> pil_image \<Rightarrow> ((real \<times> real) \<times> real \<times> bool) option" where
  "downsample_class cfg im =
     (if mode im = ''1'' \<and> DownsampleMonoImages cfg then
        Some (target_res im (MonoImageUseEmbeddedResolution cfg) (MonoImageResolution cfg),
              MonoImageDownsampleThreshold cfg, False)
      else if mode im = ''L'' \<and> DownsampleGrayImages cfg then
        Some (target_res im (GrayImageUseEmbeddedResolution cfg) (GrayImageResolution cfg),
              GrayImageDownsampleThreshold cfg, True)
      else if (mode im = ''RGB'' \<or> mode im = ''CMYK'') \<and> DownsampleColorImages cfg then
        Some (target_res im (ColorImageUseEmbeddedResolution cfg) (ColorImageResolution cfg),
              ColorImageDownsampleThreshold cfg, True)
      else None)"

text \<open>
  The threshold \<^verbatim>\<open>_DownsampleRes[i] * threshold * imagesizefactor\<close> that the effective
  resolution is compared with, and the new downsample dimension
  \<^verbatim>\<open>(_RealDimensions[i] / 72.0) * _DownsampleRes[i] * imagesizefactor\<close>.
\<close>

definition downsample_limit :: "env \<Rightarrow> bool \<Rightarrow> real \<Rightarrow> real \<Rightarrow> real \<Rightarrow> real" where
  "downsample_limit env sized dr threshold imagesizefactor =
     (if sized then fmul env (fmul env dr threshold) imagesizefactor else fmul env dr threshold)"

definition downsample_dimension :: "env \<Rightarrow> bool \<Rightarrow> real \<Rightarrow> real \<Rightarrow> real \<Rightarrow> real" where
  "downsample_dimension env sized rd dr imagesizefactor =
     (if sized then fmul env (fmul env (fquot env rd 72) dr) imagesizefactor
      else fmul env (fquot env rd 72) dr)"

text \<open>
  The end of \<^verbatim>\<open>_SetDownsampleDimensions\<close>: the factor is the quotient of the downsample
  dimensions by the extent of the crop box (or by the size of the image when there is no
  crop box), and the downsample dimensions become the size of the image times the factor.
\<close>

definition set_downsample_factor :: "env \<Rightarrow> pil_image \<Rightarrow> opi \<Rightarrow> pyerr + opi" where
  "set_downsample_factor env im s =
     (case DownsampleDimensions s of
        None \<Rightarrow> Inl IndexError
      | Some (dd0, dd1) \<Rightarrow>
          (let (w, h) = size_px im;
               (c0, c1) = (case ImageCropFixed s of
                             Some (x1, y1, x2, y2) \<Rightarrow> (fsub env x2 x1, fsub env y2 y1)
                           | None \<Rightarrow> (real_of_int w, real_of_int h))
           in if c0 = 0 \<or> c1 = 0 then Inl ZeroDivisionError
              else
                (let f0 = fquot env dd0 c0; f1 = fquot env dd1 c1
                 in Inr (s\<lparr>DownsampleFactor := (f0, f1),
                           DownsampleDimensions :=
                             (if 2 \<in> set (obj_version s)
                              then Some (real_of_int \<lceil>fmul env (real_of_int w) f0\<rceil>,
                                         real_of_int \<lceil>fmul env (real_of_int h) f1\<rceil>)
                              else Some (real_of_int (py_round (fmul env (real_of_int w) f0)),
                                         real_of_int (py_round (fmul env (real_of_int h) f1))))\<rparr>))))"

text \<open>\<^verbatim>\<open>_SetDownsampleDimensions()\<close>\<close>

definition SetDownsampleDimensions :: "env \<Rightarrow> options \<Rightarrow> opi \<Rightarrow> pyerr + opi" where
  "SetDownsampleDimensions env cfg s =
     (case RealDimensions s of
        None \<Rightarrow> Inr s
      | Some (rd0, rd1) \<Rightarrow>
          (case getraster s of
             Inl e \<Rightarrow> Inl e
           | Inr im \<Rightarrow>
               (let imagesizefactor =
                      (if max rd0 rd1 \<le> TinyHalftoneImageSize cfg
                         then TinyHalftoneImageResolutionFactor cfg
                       else if max rd0 rd1 \<le> SmallHalftoneImageSize cfg
                         then SmallHalftoneImageResolutionFactor cfg
                       else 1)
                in case downsample_class cfg im of
                     None \<Rightarrow> set_downsample_factor env im s
                   | Some ((dr0, dr1), threshold, sized) \<Rightarrow>
                       (case (RealRes s, DownsampleDimensions s) of
                          (Some (rr0, rr1), Some (dd0, dd1)) \<Rightarrow>
                            set_downsample_factor env im
                              (s\<lparr>DownsampleRes := Some (dr0, dr1),
                                 DownsampleDimensions :=
                                   Some (if rr0 > downsample_limit env sized dr0 threshold imagesizefactor
                                           then downsample_dimension env sized rd0 dr0 imagesizefactor
                                           else dd0,
                                         if rr1 > downsample_limit env sized dr1 threshold imagesizefactor
                                           then downsample_dimension env sized rd1 dr1 imagesizefactor
                                           else dd1)\<rparr>)
                        | _ \<Rightarrow> Inl IndexError))))"

section \<open>Crop and downsample\<close>

text \<open>
  The rounding of a crop box to pixels that \<^verbatim>\<open>_write\<close> and \<^verbatim>\<open>_CropAndDownsample\<close>
  share: floor for the first corner; for the second corner ceiling when OPI 2.0 was seen
  for the object, floor otherwise.
\<close>

definition round_crop :: "bool \<Rightarrow> real \<times> real \<times> real \<times> real \<Rightarrow> int \<times> int \<times> int \<times> int" where
  "round_crop v20 q =
     (case q of
        (x1, y1, x2, y2) \<Rightarrow>
          if v20 then (\<lfloor>x1\<rfloor>, \<lfloor>y1\<rfloor>, \<lceil>x2\<rceil>, \<lceil>y2\<rceil>) else (\<lfloor>x1\<rfloor>, \<lfloor>y1\<rfloor>, \<lfloor>x2\<rfloor>, \<lfloor>y2\<rfloor>))"

text \<open>The handler of the two \<^verbatim>\<open>try\<close> blocks: count the error and abort.\<close>

definition stage_failed :: "opi \<Rightarrow> opi" where
  "stage_failed s = abort (s\<lparr>errorcount := errorcount s + 1\<rparr>)"

text \<open>The block \<^verbatim>\<open>if not imagecopy\<close>: the image gets the path and key of its cache file.\<close>

definition copy_image_path :: "env \<Rightarrow> opi \<Rightarrow> opi" where
  "copy_image_path env s =
     (let p = tmppath env True False s
      in s\<lparr>imgASCIIpath := p, imgpath_md5 := Some (md5 env p)\<rparr>)"

text \<open>
  The crop stage. The result is the state, the end size, and whether the image was
  cropped; \<open>None\<close> for the end size stands for the return of \<^verbatim>\<open>None\<close> after a failure.
  \<^verbatim>\<open>crop\<close> is lazy; the call that can fail is \<^verbatim>\<open>load\<close>, after the cropped image
  has been stored.
\<close>

definition crop_stage ::
  "env \<Rightarrow> options \<Rightarrow> pil_image \<Rightarrow> int \<times> int \<times> int \<times> int \<Rightarrow> opi
     \<Rightarrow> pyerr + (opi \<times> (int \<times> int) option \<times> bool)" where
  "crop_stage env cfg im box s =
     (case (box, size_px im) of
        ((x1, y1, x2, y2), (w, h)) \<Rightarrow>
          if (x2 - x1) * (y2 - y1) = 0 then Inl ZeroDivisionError
          else if fquot env (real_of_int (w * h)) (real_of_int ((x2 - x1) * (y2 - y1)))
                    \<ge> imagecropthreshold cfg
          then
            (let s1 = setimage cfg (Raster (crop im box)) (copy_image_path env s)
             in if load_raises env (crop im box) then Inr (stage_failed s1, None, False)
                else Inr (s1\<lparr>sizemod := True\<rparr>, Some (x2 - x1, y2 - y1), True))
          else Inr (s\<lparr>RealCropRect := Some (0, 0, w, h)\<rparr>, Some (w, h), False))"

text \<open>
  The downsample stage, for the current image \<open>im\<close> (the cropped one after a crop) and the
  target size \<open>dd\<close>. \<^verbatim>\<open>resize\<close> can fail; so does the rescaling of an absent crop box
  (\<^verbatim>\<open>self._ImageCropFixed[0]\<close> on the empty list), after the resized image has been
  stored. The result is the state and whether the stage succeeded.
\<close>

definition downsample_stage ::
  "env \<Rightarrow> options \<Rightarrow> pil_image \<Rightarrow> int \<times> int \<Rightarrow> bool \<Rightarrow> opi \<Rightarrow> opi \<times> bool" where
  "downsample_stage env cfg im dd cropped s =
     (let s1 = (if cropped then s else copy_image_path env s)
      in if resize_raises env im dd then (stage_failed s1, False)
         else
           (let s2 = (setimage cfg (Raster (resize env im dd)) s1)\<lparr>sizemod := True\<rparr>
            in case ImageCropFixed s2 of
                 None \<Rightarrow> (stage_failed s2, False)
               | Some (x1, y1, x2, y2) \<Rightarrow>
                   (let (f0, f1) = DownsampleFactor s2;
                        icf = (fmul env x1 f0, fmul env y1 f1, fmul env x2 f0, fmul env y2 f1)
                    in (s2\<lparr>ImageCropFixed := Some icf, ImageCropRect := Some (intlist4 icf),
                           RealCropRect :=
                             (if cropped then Some (round_crop (2 \<in> set (obj_version s2)) icf)
                              else Some (0, 0, fst dd, snd dd)),
                           IncludedImageDimensions := Some dd\<rparr>, True))))"

text \<open>
  \<^verbatim>\<open>_CropAndDownsample()\<close>: the state and the value returned, \<open>None\<close> after a failure and
  \<^verbatim>\<open>_sizemod\<close> otherwise.
\<close>

definition CropAndDownsample :: "env \<Rightarrow> options \<Rightarrow> opi \<Rightarrow> pyerr + (opi \<times> bool option)" where
  "CropAndDownsample env cfg s0 =
     (let s = s0\<lparr>sizemod := False\<rparr>
      in case RealCropRect s of
           None \<Rightarrow> Inl IndexError
         | Some box \<Rightarrow>
             (case getraster s of
                Inl e \<Rightarrow> Inl e
              | Inr im \<Rightarrow>
                  (case crop_stage env cfg im box s of
                     Inl e \<Rightarrow> Inl e
                   | Inr (s1, None, cropped) \<Rightarrow> Inr (s1, None)
                   | Inr (s1, Some (e0, e1), cropped) \<Rightarrow>
                       (let (f0, f1) = DownsampleFactor s1;
                            dd = (if 2 \<in> set (obj_version s1)
                                  then (\<lceil>fmul env (real_of_int e0) f0\<rceil>,
                                        \<lceil>fmul env (real_of_int e1) f1\<rceil>)
                                  else (py_round (fmul env (real_of_int e0) f0),
                                        py_round (fmul env (real_of_int e1) f1)));
                            s2 = s1\<lparr>DownsampleDimensions :=
                                      Some (real_of_int (fst dd), real_of_int (snd dd))\<rparr>
                        in if fst dd < e0 \<or> snd dd < e1 then
                             (case getraster s2 of
                                Inl e \<Rightarrow> Inl e
                              | Inr cur \<Rightarrow>
                                  (case downsample_stage env cfg cur dd cropped s2 of
                                     (s3, False) \<Rightarrow> Inr (s3, None)
                                   | (s3, True) \<Rightarrow>
                                       Inr (set_info (info_dpi im) s3, Some (sizemod s3))))
                           else Inr (set_info (info_dpi im) s2, Some (sizemod s2))))))"


section \<open>The method \<^verbatim>\<open>_write\<close>\<close>

text \<open>Sequencing of steps that can raise.\<close>

definition and_then :: "pyerr + 'a \<Rightarrow> ('a \<Rightarrow> pyerr + 'b) \<Rightarrow> pyerr + 'b" where
  "and_then m f = (case m of Inl e \<Rightarrow> Inl e | Inr x \<Rightarrow> f x)"

text \<open>A step of \<^verbatim>\<open>_write\<close> either goes on or executes \<^verbatim>\<open>return\<close>.\<close>

datatype flow = Continue opi | Return opi

subsection \<open>Looking for a cached version\<close>

definition is_mem_cached :: "env \<Rightarrow> opi \<Rightarrow> string \<Rightarrow> bool" where
  "is_mem_cached env s p = (map_of (imagecache s) (Some (md5 env p)) \<noteq> None)"

definition is_cached :: "env \<Rightarrow> opi \<Rightarrow> string \<Rightarrow> bool" where
  "is_cached env s p = (is_mem_cached env s p \<or> isfile env p)"

text \<open>\<^verbatim>\<open>self._is_mem_cached(p) or self._is_same_age(p)\<close>\<close>

definition is_recent :: "env \<Rightarrow> opi \<Rightarrow> string \<Rightarrow> pyerr + bool" where
  "is_recent env s p =
     (if is_mem_cached env s p then Inr True
      else case (st_mtime env p, st_mtime env (imgASCIIpath s)) of
             (Some a, Some b) \<Rightarrow> Inr (a = b)
           | _ \<Rightarrow> Inl OSError)"

text \<open>
  The cascade over the four cache paths: the path chosen and the values of
  \<^verbatim>\<open>_sizemod\<close> and \<^verbatim>\<open>_colormod\<close>.
\<close>

definition choose_cache_path :: "env \<Rightarrow> opi \<Rightarrow> pyerr + (string \<times> bool \<times> bool)" where
  "choose_cache_path env s =
     (let tt = tmppath env True True s; tf = tmppath env True False s;
          ft = tmppath env False True s; ff = tmppath env False False s
      in if is_cached env s tt then
           and_then (is_recent env s tt)
             (\<lambda>r. Inr (tt, if r then True else sizemod s, if r then True else colormod s))
         else if is_cached env s tf then
           and_then (is_recent env s tf) (\<lambda>r. Inr (tf, if r then True else sizemod s, colormod s))
         else if is_cached env s ft then
           and_then (is_recent env s ft) (\<lambda>r. Inr (ft, sizemod s, if r then True else colormod s))
         else if is_cached env s ff then Inr (ff, sizemod s, colormod s)
         else Inr (gettmppath env s, sizemod s, colormod s))"

text \<open>The head of \<^verbatim>\<open>_write\<close>, up to \<^verbatim>\<open>self._set_imgpath_md5(self._imgASCIIpath)\<close>.\<close>

definition lookup_cache :: "env \<Rightarrow> options \<Rightarrow> opi \<Rightarrow> pyerr + opi" where
  "lookup_cache env cfg s =
     and_then
       (if usecache cfg \<or> usediskcache cfg then
          and_then (choose_cache_path env s)
            (\<lambda>(p, sm, cm).
               let s1 = s\<lparr>sizemod := sm, colormod := cm\<rparr>
               in if p \<noteq> imgASCIIpath s1 \<and> is_cached env s1 p then
                    and_then (is_recent env s1 p)
                      (\<lambda>r. Inr (if r then s1\<lparr>imagecached := True, imgASCIIpath := p\<rparr> else s1))
                  else Inr s1)
        else Inr s)
       (\<lambda>s2. Inr (s2\<lparr>imgpath_md5 := Some (md5 env (imgASCIIpath s2))\<rparr>))"

subsection \<open>The placeholder image\<close>

text \<open>\<^verbatim>\<open>errorstr.split(":", 1)\<close>\<close>

definition split_colon :: "string \<Rightarrow> string list" where
  "split_colon t =
     (case dropWhile (\<lambda>c. c \<noteq> CHR '':'') t of
        [] \<Rightarrow> [t]
      | c # rest \<Rightarrow> [takeWhile (\<lambda>c. c \<noteq> CHR '':'') t, rest])"

text \<open>
  The drawing calls of \<^verbatim>\<open>_failimage\<close>, in order: the new CMYK image of 320 by 240
  pixels filled with (0, 255, 255, 0), the two diagonals in black, the rectangle behind
  the text and the two lines of text.
\<close>

definition failimage_ops :: "env \<Rightarrow> string \<Rightarrow> draw_op list" where
  "failimage_ops env errstr =
     (let parts = split_colon errstr;
          e0 = hd parts @ '':'';
          e1 = (if length parts < 2 then ''<>'' else parts ! 1);
          w = 320; h = 240;
          x1 = w - (w div 2) - (fst (font_getsize env e0) div 2);
          y1 = h - (h div 2) - snd (font_getsize env e0);
          x2 = w - (w div 2) - (fst (font_getsize env e1) div 2);
          y2 = h - (h div 2)
      in [New ''CMYK'' (w, h) [0, 255, 255, 0],
          Line (0, 0, w, h) [0, 0, 0, 255],
          Line (0, h, w, 0) [0, 0, 0, 255],
          Rectangle (0, y1, w, y2 + snd (font_getsize env e1)) [0, 255, 255, 0] [0, 255, 255, 0],
          Text (x1, y1) e0 [0, 0, 0, 0],
          Text (x2, y2) e1 [0, 0, 0, 0]])"

text \<open>\<^verbatim>\<open>_failimage(errorstr)\<close>: the image returned and the state it leaves.\<close>

definition failimage :: "env \<Rightarrow> string \<Rightarrow> opi \<Rightarrow> pil_image \<times> opi" where
  "failimage env errstr s =
     (\<lparr>mode = ''CMYK'', size_px = (320, 240), info_dpi = None,
       pixels = render env (failimage_ops env errstr)\<rparr>,
      s\<lparr>DownsampleDimensions := Some (320, 240), DownsampleFactor := (1, 1),
        ImageCropFixed := Some (0, 0, 320, 240), ImageCropRect := Some (0, 0, 320, 240),
        IncludedImageDimensions := Some (320, 240), RealCropRect := Some (0, 0, 320, 240)\<rparr>)"

subsection \<open>Opening the image\<close>

text \<open>
  The \<^verbatim>\<open>try\<close> block that opens the file when the image is not in the memory cache.
  An \<^verbatim>\<open>IOError\<close> of \<^verbatim>\<open>Image.open\<close> or of reading the EPS file is caught and
  becomes an error string; the other exceptions of \<^verbatim>\<open>EPSImage\<close> escape.
\<close>

definition open_file :: "env \<Rightarrow> options \<Rightarrow> opi \<Rightarrow> pyerr + flow" where
  "open_file env cfg s =
     (if isfile env (imgASCIIpath s) then
        (if aborted s then Inr (Return (reset s))
         else if imageformat s \<noteq> ''epsf'' then
           (case Image_open env (imgASCIIpath s) of
              None \<Rightarrow>
                Inr (Continue (s\<lparr>errorstr := ''ERROR - could not read image file: '' @ ImageFileName s\<rparr>))
            | Some im \<Rightarrow>
                (let s1 = setimage cfg (Raster im) s
                 in if mode im \<notin> {''1'', ''L'', ''RGB'', ''CMYK''} then
                      (let s2 = s1\<lparr>errorstr := ''ERROR - unsupported mode: '' @ mode im\<rparr>
                       in if abortonerror cfg
                          then Inr (Return (abort (s2\<lparr>errorcount := errorcount s2 + 1\<rparr>)))
                          else Inr (Continue s2))
                    else Inr (Continue s1)))
         else
           (case file_read env (imgASCIIpath s) of
              None \<Rightarrow>
                Inr (Continue (s\<lparr>errorstr := ''ERROR - could not read image file: '' @ ImageFileName s\<rparr>))
            | Some d \<Rightarrow>
                and_then (EPSImage_init (pyfloat env) d)
                  (\<lambda>eps. Inr (Continue (setimage cfg (Epsf eps) s)))))
      else
        (let s1 = s\<lparr>errorstr := ''ERROR - image file not found: '' @ ImageFileName s\<rparr>
         in if abortonfilenotfound cfg
            then Inr (Return (abort (s1\<lparr>errorcount := errorcount s1 + 1\<rparr>)))
            else Inr (Continue s1)))"

text \<open>
  From \<^verbatim>\<open>if not self._is_mem_cached(self._imgASCIIpath)\<close> to the second
  \<^verbatim>\<open>if self._aborted\<close>: open the file, then turn an error string into an abort or into
  the placeholder image.
\<close>

definition open_image :: "env \<Rightarrow> options \<Rightarrow> opi \<Rightarrow> pyerr + flow" where
  "open_image env cfg s =
     and_then
       (if \<not> is_mem_cached env s (imgASCIIpath s) then open_file env cfg s else Inr (Continue s))
       (\<lambda>fl. case fl of
          Return s1 \<Rightarrow> Inr (Return s1)
        | Continue s1 \<Rightarrow>
            (let s2 =
               (if errorstr s1 \<noteq> [] then
                  (let s' = s1\<lparr>errorcount := errorcount s1 + 1\<rparr>
                   in if abortonerror cfg then abort s'
                      else
                        (let (im, s'') = failimage env (errorstr s') s'
                         in (setimage cfg (Raster im) s'')\<lparr>imageformat := ''[internal]''\<rparr>))
                else s1)
             in if aborted s2 then Inr (Return (reset s2)) else Inr (Continue s2)))"


subsection \<open>The crop box in pixels\<close>

text \<open>
  The branch of \<^verbatim>\<open>_write\<close> for an image that is not a cached, size-modified version:
  the crop box \<open>icf\<close>, given in the declared dimensions \<open>dims\<close>, is scaled to the pixels
  \<open>sz\<close> of the opened image by \<^verbatim>\<open>(float(size[i]) / ImageDimensions[i]) * c\<close> and
  rounded. Under OPI 2.0 the box is then widened by one pixel on either side of an axis,
  unless the declared dimension equals the extent of the rounded box on that axis, the
  floor of the first coordinate is 0, or the ceiling of the second coordinate equals the
  declared dimension. The result is the scaled box and \<^verbatim>\<open>_RealCropRect\<close>.
\<close>

definition scale_crop ::
  "env \<Rightarrow> bool \<Rightarrow> real \<times> real \<Rightarrow> int \<times> int \<Rightarrow> real \<times> real \<times> real \<times> real
     \<Rightarrow> pyerr + ((real \<times> real \<times> real \<times> real) \<times> (int \<times> int \<times> int \<times> int))" where
  "scale_crop env v20 dims sz icf =
     (case (dims, sz, icf) of
        ((d0, d1), (w, h), (c1, c2, c3, c4)) \<Rightarrow>
          if d0 = 0 \<or> d1 = 0 then Inl ZeroDivisionError
          else
            (let x1 = fmul env (fquot env (real_of_int w) d0) c1;
                 y1 = fmul env (fquot env (real_of_int h) d1) c2;
                 x2 = fmul env (fquot env (real_of_int w) d0) c3;
                 y2 = fmul env (fquot env (real_of_int h) d1) c4
             in if v20 then
                  (let size0 = fsub env (real_of_int \<lceil>x2\<rceil>) (real_of_int \<lfloor>x1\<rfloor>);
                       size1 = fsub env (real_of_int \<lceil>y2\<rceil>) (real_of_int \<lfloor>y1\<rfloor>);
                       r0 = (if d0 \<noteq> size0 \<and> \<lfloor>x1\<rfloor> \<noteq> 0 then \<lfloor>x1\<rfloor> - 1 else \<lfloor>x1\<rfloor>);
                       r2 = (if d0 \<noteq> size0 \<and> real_of_int \<lceil>x2\<rceil> \<noteq> d0 then \<lceil>x2\<rceil> + 1 else \<lceil>x2\<rceil>);
                       r1 = (if d1 \<noteq> size1 \<and> \<lfloor>y1\<rfloor> \<noteq> 0 then \<lfloor>y1\<rfloor> - 1 else \<lfloor>y1\<rfloor>);
                       r3 = (if d1 \<noteq> size1 \<and> real_of_int \<lceil>y2\<rceil> \<noteq> d1 then \<lceil>y2\<rceil> + 1 else \<lceil>y2\<rceil>)
                   in Inr ((x1, y1, x2, y2), (r0, r1, r2, r3)))
                else Inr ((x1, y1, x2, y2), (\<lfloor>x1\<rfloor>, \<lfloor>y1\<rfloor>, \<lfloor>x2\<rfloor>, \<lfloor>y2\<rfloor>))))"

text \<open>
  The branch for a cached, size-modified version (\<^verbatim>\<open>_imagecached and _sizemod\<close>): the
  factor is recomputed from the size of the cached image. The result is the factor, the
  rescaled box and \<^verbatim>\<open>_RealCropRect\<close>.
\<close>

definition rescale_cached_crop ::
  "env \<Rightarrow> options \<Rightarrow> bool \<Rightarrow> real \<times> real \<Rightarrow> int \<times> int \<Rightarrow> real \<times> real \<times> real \<times> real
     \<Rightarrow> pyerr + ((real \<times> real) \<times> (real \<times> real \<times> real \<times> real) \<times> (int \<times> int \<times> int \<times> int))" where
  "rescale_cached_crop env cfg v20 dims sz icf =
     (case (dims, sz, icf) of
        ((d0, d1), (w, h), (c1, c2, c3, c4)) \<Rightarrow>
          (let area = fmul env (fsub env c3 c1) (fsub env c4 c2)
           in if area = 0 then Inl ZeroDivisionError
              else
                (let cropped = (fquot env (fmul env d0 d1) area \<ge> imagecropthreshold cfg);
                     (size0, size1) =
                       (if cropped then
                          (if v20 then (fsub env (real_of_int \<lceil>c3\<rceil>) (real_of_int \<lfloor>c1\<rfloor>),
                                        fsub env (real_of_int \<lceil>c4\<rceil>) (real_of_int \<lfloor>c2\<rfloor>))
                           else (fsub env (real_of_int \<lfloor>c3\<rfloor>) (real_of_int \<lfloor>c1\<rfloor>),
                                 fsub env (real_of_int \<lfloor>c4\<rfloor>) (real_of_int \<lfloor>c2\<rfloor>)))
                        else (d0, d1))
                 in if size0 = 0 \<or> size1 = 0 then Inl ZeroDivisionError
                    else
                      (let f0 = fquot env (real_of_int w) size0;
                           f1 = fquot env (real_of_int h) size1;
                           q = (fmul env c1 f0, fmul env c2 f1, fmul env c3 f0, fmul env c4 f1)
                       in Inr ((f0, f1), q,
                               if cropped then round_crop v20 q else (0, 0, w, h))))))"

text \<open>
  Both branches as a step on the state. The second component is
  \<^verbatim>\<open>float(_ImageCropFixed[2] - _ImageCropFixed[0])\<close> and its counterpart for the other
  axis, for the local variable \<^verbatim>\<open>_ImageCropFixed\<close> of \<^verbatim>\<open>_write\<close>: a list of floats
  when a crop box was given, and the ints \<^verbatim>\<open>[0, 0, size[0], size[1]]\<close> otherwise.
\<close>

definition box_extent :: "env \<Rightarrow> real \<times> real \<times> real \<times> real \<Rightarrow> real \<times> real" where
  "box_extent env q = (case q of (x1, y1, x2, y2) \<Rightarrow> (fsub env x2 x1, fsub env y2 y1))"

definition set_crop ::
  "env \<Rightarrow> options \<Rightarrow> pil_image \<Rightarrow> real \<times> real \<Rightarrow> opi \<Rightarrow> pyerr + (opi \<times> (real \<times> real))" where
  "set_crop env cfg im dims s =
     (let (w, h) = size_px im;
          whole = (real_of_int w, real_of_int h)
      in if imagecached s \<and> sizemod s then
           (case ImageCropFixed s of
              None \<Rightarrow> Inr (s\<lparr>RealCropRect := Some (0, 0, w, h)\<rparr>, whole)
            | Some icf \<Rightarrow>
                and_then (rescale_cached_crop env cfg (2 \<in> set (obj_version s)) dims (w, h) icf)
                  (\<lambda>(f, q, r).
                     Inr (s\<lparr>DownsampleFactor := f, ImageCropFixed := Some q,
                            ImageCropRect := Some (intlist4 q), RealCropRect := Some r\<rparr>,
                          box_extent env q)))
         else
           (case ImageCropFixed s of
              None \<Rightarrow> Inr (s\<lparr>RealCropRect := Some (0, 0, w, h)\<rparr>, whole)
            | Some icf \<Rightarrow>
                and_then (scale_crop env (2 \<in> set (obj_version s)) dims (w, h) icf)
                  (\<lambda>(q, r).
                     Inr (s\<lparr>ImageCropFixed := Some q, ImageCropRect := Some (intlist4 q),
                            RealCropRect := Some r\<rparr>,
                          box_extent env q))))"

text \<open>The standard and the minimum resolution of the class of a mode (two dictionaries).\<close>

definition class_resolutions :: "options \<Rightarrow> string \<Rightarrow> pyerr + (real \<times> real)" where
  "class_resolutions cfg m =
     (if m = ''1'' then Inr (MonoImageResolution cfg, MonoImageMinResolution cfg)
      else if m = ''L'' then Inr (GrayImageResolution cfg, GrayImageMinResolution cfg)
      else if m = ''RGB'' \<or> m = ''CMYK''
        then Inr (ColorImageResolution cfg, ColorImageMinResolution cfg)
      else Inl KeyError)"

text \<open>
  The effective resolution \<^verbatim>\<open>extent / (_RealDimensions[i] / 72.0)\<close> and the quality,
  when the placed size is known.
\<close>

definition set_real_res ::
  "env \<Rightarrow> options \<Rightarrow> pil_image \<Rightarrow> real \<times> real \<Rightarrow> opi \<Rightarrow> pyerr + opi" where
  "set_real_res env cfg im ext s =
     (case (RealDimensions s, ext) of
        (None, _) \<Rightarrow> Inr s
      | (Some (rd0, rd1), (e0, e1)) \<Rightarrow>
          if fquot env rd0 72 = 0 \<or> fquot env rd1 72 = 0 then Inl ZeroDivisionError
          else
            (let rr0 = fquot env e0 (fquot env rd0 72); rr1 = fquot env e1 (fquot env rd1 72)
             in and_then (class_resolutions cfg (mode im))
                  (\<lambda>(stdres, minres).
                     Inr (s\<lparr>RealRes := Some (rr0, rr1),
                            IncludedImageQuality :=
                              (if min rr0 rr1 \<ge> stdres then 3
                               else if min rr0 rr1 \<ge> minres then 2
                               else IncludedImageQuality s)\<rparr>))))"

subsection \<open>Colour conversion\<close>

text \<open>
  \<^verbatim>\<open>_ICCtransform()\<close>: the choice of the profiles is the outcome \<open>icc_plan\<close>; a converted
  image is stored with the \<^verbatim>\<open>info\<close> of the image it comes from; a profile of an
  unsupported colour space aborts.
\<close>

definition ICCtransform :: "env \<Rightarrow> options \<Rightarrow> opi \<Rightarrow> pyerr + opi" where
  "ICCtransform env cfg s =
     and_then (getraster s)
       (\<lambda>im. case icc_plan env cfg s im of
                Skipped \<Rightarrow> Inr s
              | Unsupported \<Rightarrow> Inr (abort s)
              | Converted im' \<Rightarrow> Inr (setimage cfg (Raster (im'\<lparr>info_dpi := info_dpi im\<rparr>)) s)
              | Raised \<Rightarrow> Inl LibraryError)"

subsection \<open>Processing a raster image\<close>

text \<open>
  The block \<^verbatim>\<open>if self._imageformat != "epsf"\<close> of \<^verbatim>\<open>_write\<close> down to the colour
  conversion. \<^verbatim>\<open>_RealDimensions\<close> is taken as \<^verbatim>\<open>_SetRealDimensions\<close> left it.
\<close>

definition process_raster :: "env \<Rightarrow> options \<Rightarrow> opi \<Rightarrow> pyerr + flow" where
  "process_raster env cfg s =
     and_then (getraster s)
       (\<lambda>im.
          case ImageDimensions s of
            None \<Rightarrow> Inl IndexError
          | Some dims \<Rightarrow>
              (let sz = (real_of_int (fst (size_px im)), real_of_int (snd (size_px im)));
                   s1 = s\<lparr>ImageResolution :=
                            (case info_dpi im of Some d \<Rightarrow> Some d | None \<Rightarrow> ImageResolution s),
                          DownsampleDimensions := Some sz, ImageDimensions := Some sz,
                          IncludedImageDimensions := Some (size_px im)\<rparr>
               in if errorstr s1 \<noteq> [] then Inr (Continue s1)
                  else
                    and_then (set_crop env cfg im dims s1)
                      (\<lambda>(s2, ext).
                         and_then (set_real_res env cfg im ext s2)
                           (\<lambda>s3.
                              if \<not> imagecached s3 then
                                and_then (detectcmykgrayimages_run env cfg s3)
                                  (\<lambda>s4.
                                     and_then (SetDownsampleDimensions env cfg s4)
                                       (\<lambda>s5.
                                          and_then
                                            (if \<not> sizemod s5 then CropAndDownsample env cfg s5
                                             else Inr (s5, Some True))
                                            (\<lambda>(s6, r).
                                               if r = None then Inr (Return s6)
                                               else
                                                 and_then (ICCtransform env cfg s6)
                                                   (\<lambda>s7. if aborted s7 then Inr (Return (reset s7))
                                                          else Inr (Continue s7)))))
                              else if \<not> sizemod s3 then
                                and_then (SetDownsampleDimensions env cfg s3)
                                  (\<lambda>s4.
                                     and_then (CropAndDownsample env cfg s4)
                                       (\<lambda>(s5, r).
                                          if r = None then Inr (Return s5) else Inr (Continue s5)))
                              else Inr (Continue s3)))))"

subsection \<open>Emission\<close>

text \<open>\<^verbatim>\<open>str\<close> of an int.\<close>

fun str_nat :: "nat \<Rightarrow> string" where
  "str_nat n =
     (if n < 10 then [char_of (48 + n)] else str_nat (n div 10) @ [char_of (48 + n mod 10)])"

declare str_nat.simps [simp del]

definition str_int :: "int \<Rightarrow> string" where
  "str_int i = (if i < 0 then CHR ''-'' # str_nat (nat (- i)) else str_nat (nat i))"

text \<open>\<^verbatim>\<open>str\<close> of \<^verbatim>\<open>_IncludedImageQuality\<close>, which is one of 1.0, 2.0 and 3.0.\<close>

definition str_quality :: "real \<Rightarrow> string" where
  "str_quality q = (if q = 3 then ''3.0'' else if q = 2 then ''2.0'' else ''1.0'')"

text \<open>
  The writes between the graphics state and the image data:
  \<^verbatim>\<open>%%BeginIncludedImage\<close>, \<^verbatim>\<open>%%IncludedImageDimensions\<close> and
  \<^verbatim>\<open>%%IncludedImageQuality\<close>.
\<close>

definition write_included_image_header :: "options \<Rightarrow> opi \<Rightarrow> pyerr + opi" where
  "write_included_image_header cfg s =
     (if 2 \<in> set (version cfg) then
        (let s1 = raw_write (''%%BeginIncludedImage'' @ newline cfg) s
         in and_then
              (if imageformat s1 \<noteq> ''epsf'' then
                 (case IncludedImageDimensions s1 of
                    None \<Rightarrow> Inl IndexError
                  | Some (w, h) \<Rightarrow>
                      Inr (raw_write (''%%IncludedImageDimensions: '' @ str_int w @ '' '' @
                                      str_int h @ newline cfg) s1))
               else Inr s1)
              (\<lambda>s2. Inr (raw_write (''%%IncludedImageQuality: '' @
                                     str_quality (IncludedImageQuality s2) @ newline cfg) s2)))
      else Inr s)"

text \<open>
  The rest of \<^verbatim>\<open>_write\<close>. Of what it writes, the model keeps the included image header;
  the OPI comments, the graphics state and the image data are left out.
\<close>

definition emit :: "env \<Rightarrow> options \<Rightarrow> opi \<Rightarrow> pyerr + opi" where
  "emit env cfg s =
     and_then
       (if imageformat s \<noteq> ''epsf'' then
          and_then (getraster s)
            (\<lambda>im.
               let whole = (0, 0, fst (size_px im), snd (size_px im));
                   s1 = (if 13 / 10 \<in> set (version cfg) \<and> ImageCropRect s = None
                         then s\<lparr>ImageCropRect := Some whole,
                                ImageCropFixed := Some (case whole of (a, b, c, d) \<Rightarrow>
                                  (real_of_int a, real_of_int b, real_of_int c, real_of_int d))\<rparr>
                         else s)
               in if tostring_raises env im then Inr (Return (stage_failed s1))
                  else Inr (Continue s1))
        else and_then (getimage s) (\<lambda>img. Inr (Continue (s\<lparr>IncludedImageQuality := 2\<rparr>))))
       (\<lambda>fl. case fl of
          Return s1 \<Rightarrow> Inr s1
        | Continue s1 \<Rightarrow>
            and_then (inc_occurrences s1)
              (\<lambda>s2. and_then (write_included_image_header cfg s2)
                 (\<lambda>s3. Inr (reset (checkpurgecache cfg 0 s3)))))"

text \<open>
  \<^verbatim>\<open>_write()\<close>, after \<^verbatim>\<open>_SetRealDimensions()\<close> (\<open>write\<close> is a keyword of the
  theory language, hence the name).
\<close>

definition write_object :: "env \<Rightarrow> options \<Rightarrow> opi \<Rightarrow> pyerr + opi" where
  "write_object env cfg s =
     and_then (lookup_cache env cfg s)
       (\<lambda>s1. and_then (open_image env cfg s1)
          (\<lambda>fl. case fl of
             Return s2 \<Rightarrow> Inr s2
           | Continue s2 \<Rightarrow>
               and_then
                 (if imageformat s2 \<noteq> ''epsf'' then process_raster env cfg s2
                  else Inr (Continue s2))
                 (\<lambda>fl. case fl of
                    Return s3 \<Rightarrow> Inr s3
                  | Continue s3 \<Rightarrow> emit env cfg s3)))"

section \<open>The crop box in pixels: rounding and padding\<close>

text \<open>
  C7. The padding under OPI 2.0 does not follow the rule of the claim. The guards of
  \<^verbatim>\<open>_write\<close> compare the box, scaled to the pixels of the opened image, with the
  declared dimension. With a declared size of 100 by 100, an opened image of 200 by 200
  pixels and OPI 2.0: the crop box (2.5, 2.5, 52.5, 52.5) scales to (5, 5, 105, 105), whose
  floors are not 0 and whose ceilings are not the edge 200 of the image, and is not padded,
  because its extent 100 equals the declared dimension; the crop box (0, 0, 60, 100) scales
  to (0, 0, 120, 200), whose ceiling on the second axis is the edge of the image, and is
  padded to (0, 0, 121, 201), beyond the image.
\<close>

theorem scale_crop_padding_by_declared_size:
  "scale_crop plain_env True (100, 100) (200, 200) (5 / 2, 5 / 2, 105 / 2, 105 / 2) =
     Inr ((5, 5, 105, 105), (5, 5, 105, 105)) \<and>
   scale_crop plain_env True (100, 100) (200, 200) (0, 0, 60, 100) =
     Inr ((0, 0, 120, 200), (0, 0, 121, 201))"
  by (simp add: scale_crop_def plain_env_def Let_def)

section \<open>A missing image file\<close>

text \<open>The state in which a step of \<^verbatim>\<open>_write\<close> ends.\<close>

fun flow_state :: "flow \<Rightarrow> opi" where
  "flow_state (Continue s) = s"
| "flow_state (Return s) = s"

fun returned :: "flow \<Rightarrow> bool" where
  "returned (Continue s) = False"
| "returned (Return s) = True"

lemma aborted_abort [simp]: "aborted (abort s)"
  by (simp add: abort_def)

lemma aborted_reset [simp]: "aborted (reset s) = aborted s"
  by (simp add: reset_def)

lemma errorcount_reset [simp]: "errorcount (reset s) = errorcount s"
  by (simp add: reset_def)

lemma errorcount_abort [simp]: "errorcount (abort s) = errorcount s"
  by (simp add: abort_def)

lemma fo_reset [simp]: "fo (reset s) = fo s"
  by (simp add: reset_def)

lemma fo_abort [simp]: "fo (abort s) = fo s"
  by (simp add: abort_def)

lemma imagecache_reset [simp]: "imagecache (reset s) = imagecache s"
  by (simp add: reset_def)

lemma imagecache_abort [simp]: "imagecache (abort s) = imagecache s"
  by (simp add: abort_def)

lemma cachebytes_reset [simp]: "cachebytes (reset s) = cachebytes s"
  by (simp add: reset_def)

lemma cachebytes_abort [simp]: "cachebytes (abort s) = cachebytes s"
  by (simp add: abort_def)

lemma setimage_fields [simp]:
  "aborted (setimage cfg img s) = aborted s" "errorcount (setimage cfg img s) = errorcount s"
  "fo (setimage cfg img s) = fo s" "imgASCIIpath (setimage cfg img s) = imgASCIIpath s"
  "sizemod (setimage cfg img s) = sizemod s" "imageformat (setimage cfg img s) = imageformat s"
  "obj_version (setimage cfg img s) = obj_version s"
  "ImageCropFixed (setimage cfg img s) = ImageCropFixed s"
  "DownsampleFactor (setimage cfg img s) = DownsampleFactor s"
  "RealCropRect (setimage cfg img s) = RealCropRect s"
  "IncludedImageDimensions (setimage cfg img s) = IncludedImageDimensions s"
  "DownsampleDimensions (setimage cfg img s) = DownsampleDimensions s"
  using cache_only_fields [OF setimage_cache_only [of s cfg img]] by simp_all

text \<open>
  What \<^verbatim>\<open>_write\<close> does for a missing file. Let the image be neither in the memory
  cache nor a file on disk, with no abort and no error pending. The parser aborts if and
  only if \<^verbatim>\<open>abortonfilenotfound\<close> or \<^verbatim>\<open>abortonerror\<close> is set; the error count goes up
  by one in every case. With both options off it goes on with the placeholder as the
  current image: a CMYK image of 320 by 240 pixels whose drawing starts with the fill
  (0, 255, 255, 0) and the two diagonals in black (0, 0, 0, 255), the format being
  \<^verbatim>\<open>[internal]\<close>; nothing has been written to the output.
\<close>

lemma missing_file_abort_or_placeholder:
  assumes "\<not> is_mem_cached env s (imgASCIIpath s)" and "\<not> isfile env (imgASCIIpath s)"
    and "\<not> aborted s" and "errorstr s = []"
  shows "\<exists>fl. open_image env cfg s = Inr fl \<and>
           aborted (flow_state fl) = (abortonfilenotfound cfg \<or> abortonerror cfg) \<and>
           returned fl = (abortonfilenotfound cfg \<or> abortonerror cfg) \<and>
           errorcount (flow_state fl) = errorcount s + 1 \<and>
           fo (flow_state fl) = fo s \<and>
           (\<not> abortonfilenotfound cfg \<and> \<not> abortonerror cfg \<longrightarrow>
              imageformat (flow_state fl) = ''[internal]'' \<and>
              (\<exists>im. getimage (flow_state fl) = Inr (Raster im) \<and> mode im = ''CMYK'' \<and>
                 size_px im = (320, 240) \<and>
                 (\<exists>ops. pixels im =
                    render env ([New ''CMYK'' (320, 240) [0, 255, 255, 0],
                                 Line (0, 0, 320, 240) [0, 0, 0, 255],
                                 Line (0, 240, 320, 0) [0, 0, 0, 255]] @ ops))))"
proof -
  let ?e = "''ERROR - image file not found: '' @ ImageFileName s"
  let ?s1 = "s\<lparr>errorstr := ?e\<rparr>"
  have of1: "open_file env cfg s =
      (if abortonfilenotfound cfg then Inr (Return (abort (?s1\<lparr>errorcount := errorcount s + 1\<rparr>)))
       else Inr (Continue ?s1))"
    using assms(2) by (simp add: open_file_def Let_def)
  show ?thesis
  proof (cases "abortonfilenotfound cfg")
    case True
    with of1 assms(1) show ?thesis
      by (simp add: open_image_def and_then_def)
  next
    case nf: False
    show ?thesis
    proof (cases "abortonerror cfg")
      case True
      with nf of1 assms(1) show ?thesis
        by (simp add: open_image_def and_then_def Let_def)
    next
      case False
      obtain im s'' where f: "failimage env ?e (?s1\<lparr>errorcount := errorcount s + 1\<rparr>) = (im, s'')"
        by (cases "failimage env ?e (?s1\<lparr>errorcount := errorcount s + 1\<rparr>)")
      then have im: "mode im = ''CMYK''" "size_px im = (320, 240)"
        "pixels im = render env (failimage_ops env ?e)"
        and s'': "aborted s'' = aborted s" "errorcount s'' = errorcount s + 1" "fo s'' = fo s"
        by (auto simp: failimage_def)
      have ops: "\<exists>ops. failimage_ops env ?e =
          [New ''CMYK'' (320, 240) [0, 255, 255, 0], Line (0, 0, 320, 240) [0, 0, 0, 255],
           Line (0, 240, 320, 0) [0, 0, 0, 255]] @ ops"
        by (simp add: failimage_ops_def Let_def)
      let ?s2 = "(setimage cfg (Raster im) s'')\<lparr>imageformat := ''[internal]''\<rparr>"
      have oi: "open_image env cfg s = Inr (Continue ?s2)"
        using nf False of1 assms(1,3) f s''
        by (simp add: open_image_def and_then_def Let_def)
      have gi: "getimage ?s2 = Inr (Raster im)"
        using getimage_setimage [of cfg "Raster im" s''] by (simp add: getimage_def)
      from ops obtain ops where o: "failimage_ops env ?e =
          [New ''CMYK'' (320, 240) [0, 255, 255, 0], Line (0, 0, 320, 240) [0, 0, 0, 255],
           Line (0, 240, 320, 0) [0, 0, 0, 255]] @ ops"
        by blast
      have p: "pixels im =
          render env ([New ''CMYK'' (320, 240) [0, 255, 255, 0], Line (0, 0, 320, 240) [0, 0, 0, 255],
           Line (0, 240, 320, 0) [0, 0, 0, 255]] @ ops)"
        unfolding im(3) o ..
      have inner: "\<exists>im. getimage ?s2 = Inr (Raster im) \<and> mode im = ''CMYK'' \<and>
                 size_px im = (320, 240) \<and>
                 (\<exists>ops. pixels im =
                    render env ([New ''CMYK'' (320, 240) [0, 255, 255, 0],
                                 Line (0, 0, 320, 240) [0, 0, 0, 255],
                                 Line (0, 240, 320, 0) [0, 0, 0, 255]] @ ops))"
        using gi im(1,2) p by blast
      show ?thesis
        apply (rule exI [of _ "Continue ?s2"])
        using oi inner s'' nf False assms(3) by simp
    qed
  qed
qed

text \<open>
  An OPI 2.0 object whose image file \<^verbatim>\<open>hires/missing.tif\<close> does not exist, at the point
  where \<^verbatim>\<open>_write\<close> is called: declared as 100 by 100 pixels, placed at 72 by 72 pt.
\<close>

definition missing_job :: opi where
  "missing_job =
     initial_opi\<lparr>imgASCIIpath := ''hires/missing.tif'', ImageFileName := ''hires/missing.tif'',
       obj_version := [2], ImageDimensions := Some (100, 100),
       ImageCropRect := Some (0, 0, 100, 100), ImageCropFixed := Some (0, 0, 100, 100),
       RealDimensions := Some (72, 72)\<rparr>"

lemma lookup_missing_job:
  "usecache cfg \<Longrightarrow>
   lookup_cache plain_env cfg missing_job = Inr (missing_job\<lparr>imgpath_md5 := Some ''hires/missing.tif''\<rparr>)"
  by (simp add: lookup_cache_def choose_cache_path_def is_cached_def is_mem_cached_def is_recent_def
      and_then_def plain_env_def missing_job_def initial_opi_def Let_def)

text \<open>The same object after the cache lookup of \<^verbatim>\<open>_write\<close>, and options that never abort.\<close>

definition missing_open :: opi where
  "missing_open = missing_job\<lparr>imgpath_md5 := Some ''hires/missing.tif''\<rparr>"

definition lenient_options :: options where
  "lenient_options = default_options\<lparr>abortonfilenotfound := False, abortonerror := False\<rparr>"

lemma missing_file_lenient_options:
  "\<not> is_mem_cached plain_env missing_open (imgASCIIpath missing_open) \<and>
   \<not> isfile plain_env (imgASCIIpath missing_open) \<and>
   \<not> aborted missing_open \<and> errorstr missing_open = [] \<and>
   (\<exists>fl. open_image plain_env lenient_options missing_open = Inr fl \<and>
           aborted (flow_state fl) = (abortonfilenotfound lenient_options \<or> abortonerror lenient_options) \<and>
           returned fl = (abortonfilenotfound lenient_options \<or> abortonerror lenient_options) \<and>
           errorcount (flow_state fl) = errorcount missing_open + 1 \<and>
           fo (flow_state fl) = fo missing_open \<and>
           (\<not> abortonfilenotfound lenient_options \<and> \<not> abortonerror lenient_options \<longrightarrow>
              imageformat (flow_state fl) = ''[internal]'' \<and>
              (\<exists>im. getimage (flow_state fl) = Inr (Raster im) \<and> mode im = ''CMYK'' \<and>
                 size_px im = (320, 240) \<and>
                 (\<exists>ops. pixels im =
                    render plain_env ([New ''CMYK'' (320, 240) [0, 255, 255, 0],
                                 Line (0, 0, 320, 240) [0, 0, 0, 255],
                                 Line (0, 240, 320, 0) [0, 0, 0, 255]] @ ops))))) \<and>
   and_then (open_image plain_env lenient_options missing_open)
     (\<lambda>fl. Inr (returned fl, aborted (flow_state fl), errorcount (flow_state fl),
               imageformat (flow_state fl))) = Inr (False, False, 1, ''[internal]'')"
proof -
  have a: "\<not> is_mem_cached plain_env missing_open (imgASCIIpath missing_open)"
    by (simp add: is_mem_cached_def missing_open_def missing_job_def initial_opi_def)
  have b: "\<not> isfile plain_env (imgASCIIpath missing_open)" by (simp add: plain_env_def)
  have c: "\<not> aborted missing_open" "errorstr missing_open = []"
    by (simp_all add: missing_open_def missing_job_def initial_opi_def)
  have d: "and_then (open_image plain_env lenient_options missing_open)
     (\<lambda>fl. Inr (returned fl, aborted (flow_state fl), errorcount (flow_state fl),
               imageformat (flow_state fl))) = Inr (False, False, 1, ''[internal]'')"
    using a b c
    by (simp add: open_image_def open_file_def and_then_def Let_def failimage_def
        lenient_options_def)
      (simp add: missing_open_def missing_job_def initial_opi_def)
  show ?thesis
    by (intro conjI a b c d missing_file_abort_or_placeholder [OF a b c])
qed

text \<open>
  C5. The code does not do what the claim says. With \<^verbatim>\<open>abortonfilenotfound\<close> off and
  the other options at their defaults, a missing image file does not lead to the
  placeholder: the error string falls through to the general handler, where
  \<^verbatim>\<open>abortonerror\<close> (on by default) aborts. When \<^verbatim>\<open>_write\<close> returns, the parser is
  aborted, one error is counted and no placeholder has been stored.
\<close>

theorem missing_file_aborts_with_default_options:
  "\<not> abortonfilenotfound (default_options\<lparr>abortonfilenotfound := False\<rparr>) \<and>
   and_then (write_object plain_env (default_options\<lparr>abortonfilenotfound := False\<rparr>) missing_job)
     (\<lambda>s. Inr (aborted s, errorcount s, imagecache s)) = Inr (True, 1, [])"
proof -
  let ?cfg = "default_options\<lparr>abortonfilenotfound := False\<rparr>"
  have u: "usecache ?cfg" "abortonerror ?cfg" "\<not> abortonfilenotfound ?cfg"
    by (simp_all add: default_options_def)
  have "open_image plain_env ?cfg (missing_job\<lparr>imgpath_md5 := Some ''hires/missing.tif''\<rparr>) =
      Inr (Return (reset (abort (missing_job\<lparr>imgpath_md5 := Some ''hires/missing.tif'',
        errorstr := ''ERROR - image file not found: hires/missing.tif'', errorcount := 1\<rparr>))))"
    using u by (simp add: open_image_def open_file_def is_mem_cached_def and_then_def Let_def
        plain_env_def missing_job_def initial_opi_def)
  with u show ?thesis
    by (simp add: write_object_def lookup_missing_job and_then_def)
      (simp add: missing_job_def initial_opi_def)
qed

section \<open>The loop of \<^verbatim>\<open>main\<close> and its end\<close>

text \<open>
  What the loop of \<^verbatim>\<open>main\<close> does, as far as the model goes, is a sequence of items:
  bytes of the input that \<^verbatim>\<open>_raw_write\<close> passes through, or an OPI object, for which
  \<^verbatim>\<open>_parse\<close> has filled in the attributes of the placement (the function) and calls
  \<^verbatim>\<open>_write\<close>. Nothing between \<^verbatim>\<open>_write\<close> and \<^verbatim>\<open>main\<close> catches an exception: the
  loop ends there, and its result is the exception with the state in which \<^verbatim>\<open>_write\<close>
  was called.
\<close>

datatype item = Passthrough string | Object "opi \<Rightarrow> opi"

fun main_loop :: "env \<Rightarrow> options \<Rightarrow> item list \<Rightarrow> opi \<Rightarrow> (pyerr \<times> opi) + opi" where
  "main_loop env cfg [] s = Inr s"
| "main_loop env cfg (Passthrough d # rest) s = main_loop env cfg rest (raw_write d s)"
| "main_loop env cfg (Object placement # rest) s =
     (case write_object env cfg (placement s) of
        Inl e \<Rightarrow> Inl (e, placement s)
      | Inr s' \<Rightarrow> main_loop env cfg rest s')"

text \<open>
  The final block of \<^verbatim>\<open>main\<close>, which runs when the loop has ended without an
  exception: the bytes that the output destination holds afterwards. \<open>out\<close> is the
  argument \<^verbatim>\<open>fo\<close> of \<^verbatim>\<open>parse\<close>, the string \<^verbatim>\<open>stdout\<close> or the path of a file opened
  for writing; \<^verbatim>\<open>self._fo != self._stdout\<close> holds exactly for a path. After an abort a
  file is opened for writing once more and closed, which leaves it empty.
\<close>

definition main_finish :: "string \<Rightarrow> opi \<Rightarrow> string" where
  "main_finish out s =
     (if aborted s then
        (if out \<noteq> ''stdout'' then [] else concat (fo s))
      else concat (fo s))"

text \<open>
  \<^verbatim>\<open>main\<close>: the loop and the final block are inside one \<^verbatim>\<open>try\<close>, whose handler
  \<^verbatim>\<open>except Exception\<close> writes a message to the log and nothing else. \<open>Finished b\<close>: the
  final block has run and the output holds the bytes \<open>b\<close>. \<open>Unhandled e b\<close>: the exception
  \<open>e\<close> has reached the handler and the final block was skipped; \<open>b\<close> are the bytes written
  before the call of \<^verbatim>\<open>_write\<close> that raised, which the output file starts with, since
  nothing truncates it any more.
\<close>

datatype ending = Finished string | Unhandled pyerr string

definition main :: "env \<Rightarrow> options \<Rightarrow> string \<Rightarrow> item list \<Rightarrow> ending" where
  "main env cfg out items =
     (case main_loop env cfg items initial_opi of
        Inl (e, s) \<Rightarrow> Unhandled e (concat (fo s))
      | Inr s \<Rightarrow> Finished (main_finish out s))"

text \<open>
  A run in which an abort is followed by an exception. The image \<^verbatim>\<open>hires/k.tif\<close> is
  the CMYK image with ink in the K band only, the option \<^verbatim>\<open>-cmykgrayimages_stripcmy=1\<close>
  is given, and the replacement of the image by its K band raises
  (\<^verbatim>\<open>_setimage(ImageChops.invert(Image.merge(...)))\<close> inside its \<^verbatim>\<open>try\<close>). The input is
  one line of PostScript followed by an OPI 2.0 object that places the whole image, 2 by 2
  pixels, at 72 by 72 pt.
\<close>

definition strip_fails_env :: env where
  "strip_fails_env =
     plain_env\<lparr>isfile := (\<lambda>p. p = ''hires/k.tif''),
       Image_open := (\<lambda>p. if p = ''hires/k.tif'' then Some k_only_image else None),
       strip_raises := (\<lambda>im. True)\<rparr>"

definition strip_options :: options where
  "strip_options = default_options\<lparr>cmykgrayimages_stripcmy := True\<rparr>"

definition k_placement :: "opi \<Rightarrow> opi" where
  "k_placement s =
     s\<lparr>imgASCIIpath := ''hires/k.tif'', ImageFileName := ''hires/k.tif'',
       imageformat := ''tiff'', imageextension := ''.tif'',
       obj_version := [2], ImageDimensions := Some (2, 2),
       ImageCropRect := Some (0, 0, 2, 2), ImageCropFixed := Some (0, 0, 2, 2),
       RealDimensions := Some (72, 72)\<rparr>"

definition k_job :: opi where
  "k_job = k_placement (raw_write ''%!PS-Adobe-3.0'' initial_opi)"

text \<open>The states of that run after the image has been opened, and at the call of
  \<^verbatim>\<open>_detectcmykgrayimages\<close>.\<close>

definition k_opened :: opi where
  "k_opened = setimage strip_options (Raster k_only_image) (k_job\<lparr>imgpath_md5 := Some ''hires/k.tif''\<rparr>)"

text \<open>The steps of \<^verbatim>\<open>_write\<close> in that run.\<close>

lemma k_lookup:
  "lookup_cache strip_fails_env strip_options k_job = Inr (k_job\<lparr>imgpath_md5 := Some ''hires/k.tif''\<rparr>)"
  by (simp add: lookup_cache_def choose_cache_path_def is_cached_def is_mem_cached_def is_recent_def
      and_then_def plain_env_def strip_fails_env_def strip_options_def default_options_def
      k_job_def k_placement_def raw_write_def initial_opi_def Let_def)

lemma setimage_errorstr [simp]: "errorstr (setimage cfg img s) = errorstr s"
  using arg_cong [OF setimage_cache_only [of s cfg img, unfolded cache_only_def], of errorstr]
  by simp

lemma k_open:
  "open_image strip_fails_env strip_options (k_job\<lparr>imgpath_md5 := Some ''hires/k.tif''\<rparr>) =
     Inr (Continue k_opened)"
  by (simp add: open_image_def open_file_def is_mem_cached_def and_then_def Let_def k_opened_def
      k_only_facts(2) strip_fails_env_def plain_env_def k_job_def k_placement_def raw_write_def
      initial_opi_def)

lemma k_opened_eval:
  "k_opened =
     k_job\<lparr>imgpath_md5 := Some ''hires/k.tif'', cachebytes := 16,
       imagecache := [(Some ''hires/k.tif'',
          \<lparr>entry_image = Raster k_only_image, entry_bytes = 16, entry_occurrences = 0,
           entry_path = ''hires/k.tif''\<rparr>)]\<rparr>"
  by (simp add: k_opened_def k_job_def k_placement_def raw_write_def initial_opi_def
      k_only_image_def setimage_def checkpurgecache_def exceeds_def cachelimit_def strip_options_def
      default_options_def)

definition k_placed :: opi where
  "k_placed =
     k_opened\<lparr>DownsampleDimensions := Some (2, 2), ImageDimensions := Some (2, 2),
       IncludedImageDimensions := Some (2, 2), ImageCropFixed := Some (0, 0, 2, 2),
       ImageCropRect := Some (0, 0, 2, 2), RealCropRect := Some (0, 0, 2, 2),
       RealRes := Some (2, 2)\<rparr>"

lemma k_getraster: "getraster k_opened = Inr k_only_image" "getraster k_placed = Inr k_only_image"
  by (simp_all add: k_placed_def k_opened_eval getraster_def getimage_def k_job_def k_placement_def)

lemma k_crop:
  "set_crop strip_fails_env strip_options k_only_image (2, 2)
       (k_opened\<lparr>DownsampleDimensions := Some (2, 2), ImageDimensions := Some (2, 2),
          IncludedImageDimensions := Some (2, 2)\<rparr>) =
     Inr (k_opened\<lparr>DownsampleDimensions := Some (2, 2), ImageDimensions := Some (2, 2),
            IncludedImageDimensions := Some (2, 2), ImageCropFixed := Some (0, 0, 2, 2),
            ImageCropRect := Some (0, 0, 2, 2), RealCropRect := Some (0, 0, 2, 2)\<rparr>, (2, 2))"
  by (simp add: set_crop_def scale_crop_def box_extent_def
      and_then_def Let_def k_opened_eval k_job_def k_placement_def raw_write_def
      initial_opi_def strip_fails_env_def plain_env_def
      k_only_image_def intlist4_def py_round_def)

lemma k_res:
  "set_real_res strip_fails_env strip_options k_only_image (2, 2)
     (k_opened\<lparr>DownsampleDimensions := Some (2, 2), ImageDimensions := Some (2, 2),
            IncludedImageDimensions := Some (2, 2), ImageCropFixed := Some (0, 0, 2, 2),
            ImageCropRect := Some (0, 0, 2, 2), RealCropRect := Some (0, 0, 2, 2)\<rparr>) = Inr k_placed"
  by (simp add: set_real_res_def class_resolutions_def
      and_then_def Let_def k_placed_def k_opened_eval k_job_def k_placement_def raw_write_def
      initial_opi_def strip_fails_env_def plain_env_def strip_options_def default_options_def
      k_only_image_def)

lemma k_detect:
  "detectcmykgrayimages_run strip_fails_env strip_options k_placed =
     Inr (abort (k_placed\<lparr>iscmykgrayimage := True, errorcount := 1\<rparr>))"
  apply (simp add: detectcmykgrayimages_run_def k_getraster k_only_bands detection_applies_def
      strip_applies_def sample_points_def getpixel_def Let_def)
  apply (simp add: strip_options_def default_options_def k_only_image_def cmy_zero_def
      getpixel_def strip_applies_def
      strip_fails_env_def plain_env_def k_placed_def k_opened_eval k_job_def k_placement_def
      raw_write_def initial_opi_def)
  done

lemma k_crop_raises:
  "SetDownsampleDimensions strip_fails_env strip_options (abort s) = Inr (abort s)"
  "CropAndDownsample strip_fails_env strip_options (abort s) = Inl IndexError"
  by (simp_all add: SetDownsampleDimensions_def CropAndDownsample_def abort_def reset_def Let_def)



lemma k_process: "process_raster strip_fails_env strip_options k_opened = Inl IndexError"
proof -
  have i: "info_dpi k_only_image = None" "size_px k_only_image = (2, 2)" "mode k_only_image = ''CMYK''"
    by (simp_all add: k_only_image_def)
  have e: "errorstr k_opened = []" "ImageDimensions k_opened = Some (2, 2)"
    by (simp_all add: k_opened_eval k_job_def k_placement_def raw_write_def initial_opi_def)
  have p: "\<not> imagecached k_placed" "\<not> sizemod (abort s)" for s
    by (simp_all add: k_placed_def k_opened_eval k_job_def k_placement_def raw_write_def
        initial_opi_def abort_def reset_def)
  show ?thesis
    by (simp add: process_raster_def k_getraster i e p and_then_def k_crop k_res k_detect
        k_crop_raises)
qed

lemma k_write: "write_object strip_fails_env strip_options k_job = Inl IndexError"
proof -
  have "imageformat k_opened = ''tiff''"
    by (simp add: k_opened_eval k_job_def k_placement_def)
  then show ?thesis
    by (simp add: write_object_def k_lookup k_open k_process and_then_def)
qed

text \<open>When the loop ends without an exception, an abort leaves a file empty.\<close>

lemma main_truncates_after_abort:
  assumes "main_loop env cfg items initial_opi = Inr s" and "aborted s" and "out \<noteq> ''stdout''"
  shows "main env cfg out items = Finished []"
  using assms by (simp add: main_def main_finish_def)

text \<open>
  C6. The code does not always empty the file. In the run above the handler of the strip
  failure counts an error and aborts, and \<^verbatim>\<open>_detectcmykgrayimages\<close> returns into
  \<^verbatim>\<open>_write\<close>, which goes on to \<^verbatim>\<open>_CropAndDownsample\<close> without a look at
  \<^verbatim>\<open>_aborted\<close> (after \<^verbatim>\<open>_ICCtransform\<close> it does look). \<^verbatim>\<open>_abort\<close> has emptied
  \<^verbatim>\<open>_RealCropRect\<close>, so \<^verbatim>\<open>self._RealCropRect[2]\<close> raises \<^verbatim>\<open>IndexError\<close>, which
  reaches the handler of \<^verbatim>\<open>main\<close>: the final block is skipped and the output file keeps
  the line written before the abort.
\<close>

theorem abort_then_exception_keeps_output:
  "detectcmykgrayimages_run strip_fails_env strip_options k_placed =
     Inr (abort (k_placed\<lparr>iscmykgrayimage := True, errorcount := 1\<rparr>)) \<and>
   CropAndDownsample strip_fails_env strip_options
     (abort (k_placed\<lparr>iscmykgrayimage := True, errorcount := 1\<rparr>)) = Inl IndexError \<and>
   write_object strip_fails_env strip_options k_job = Inl IndexError \<and>
   main strip_fails_env strip_options ''out.ps'' [Passthrough ''%!PS-Adobe-3.0'', Object k_placement] =
     Unhandled IndexError ''%!PS-Adobe-3.0''"
proof -
  have "main_loop strip_fails_env strip_options [Passthrough ''%!PS-Adobe-3.0'', Object k_placement]
      initial_opi = Inl (IndexError, k_job)"
    using k_write by (simp add: k_job_def)
  then have "main strip_fails_env strip_options ''out.ps''
      [Passthrough ''%!PS-Adobe-3.0'', Object k_placement] = Unhandled IndexError ''%!PS-Adobe-3.0''"
    by (simp add: main_def k_job_def k_placement_def raw_write_def initial_opi_def)
  with k_detect k_crop_raises(2) k_write show ?thesis by simp
qed


end
